theory Spec2Isabelle
  imports Main
begin

section \<open>Python string operations used by the orchestrator\<close>

text \<open>
  Python strings are modelled as \<open>string\<close> (lists of 8-bit characters) holding ASCII
  text: case conversion acts on the letters A-Z and a-z, white space is the ASCII white
  space of \<open>str.isspace\<close>, and \<open>str.encode()\<close> is the identity.
\<close>

definition upper_letters :: string where
  "upper_letters = ''ABCDEFGHIJKLMNOPQRSTUVWXYZ''"

definition lower_letters :: string where
  "lower_letters = ''abcdefghijklmnopqrstuvwxyz''"

definition lower_char :: "char \<Rightarrow> char" where
  "lower_char c = (case map_of (zip upper_letters lower_letters) c of None \<Rightarrow> c | Some d \<Rightarrow> d)"

definition upper_char :: "char \<Rightarrow> char" where
  "upper_char c = (case map_of (zip lower_letters upper_letters) c of None \<Rightarrow> c | Some d \<Rightarrow> d)"

text \<open>\<open>s.lower()\<close> and \<open>s.upper()\<close>.\<close>

definition lower :: "string \<Rightarrow> string" where
  "lower s = map lower_char s"

definition upper :: "string \<Rightarrow> string" where
  "upper s = map upper_char s"

text \<open>\<open>s.startswith(p)\<close>, written with the prefix first.\<close>

fun startswith :: "string \<Rightarrow> string \<Rightarrow> bool" where
  "startswith [] s = True"
| "startswith (p # ps) [] = False"
| "startswith (p # ps) (c # cs) = (p = c \<and> startswith ps cs)"

text \<open>\<open>sub in s\<close>: the substring test, scanning \<open>s\<close> from the left.\<close>

fun contains :: "string \<Rightarrow> string \<Rightarrow> bool" where
  "contains [] sub = (sub = [])"
| "contains (c # cs) sub = (startswith sub (c # cs) \<or> contains cs sub)"

text \<open>
  \<open>s.replace(old, new)\<close> for a non-empty \<open>old\<close> (every call site passes a literal):
  the non-overlapping occurrences of \<open>old\<close> are replaced from the left. The counter is
  the number of characters of a match that are still to be skipped.
\<close>

fun replace_from :: "nat \<Rightarrow> string \<Rightarrow> string \<Rightarrow> string \<Rightarrow> string" where
  "replace_from k [] old new = []"
| "replace_from (Suc k) (c # cs) old new = replace_from k cs old new"
| "replace_from 0 (c # cs) old new =
     (if startswith old (c # cs) then new @ replace_from (length old - 1) cs old new
      else c # replace_from 0 cs old new)"

definition replace :: "string \<Rightarrow> string \<Rightarrow> string \<Rightarrow> string" where
  "replace s old new = replace_from 0 s old new"

text \<open>
  \<open>s.split(sep)\<close> for a non-empty \<open>sep\<close> (every call site passes a literal). The
  current piece is accumulated in reverse.
\<close>

fun split_from :: "nat \<Rightarrow> string \<Rightarrow> string \<Rightarrow> string \<Rightarrow> string list" where
  "split_from k [] sep cur = [rev cur]"
| "split_from (Suc k) (c # cs) sep cur = split_from k cs sep cur"
| "split_from 0 (c # cs) sep cur =
     (if startswith sep (c # cs) then rev cur # split_from (length sep - 1) cs sep []
      else split_from 0 cs sep (c # cur))"

definition split :: "string \<Rightarrow> string \<Rightarrow> string list" where
  "split s sep = split_from 0 s sep []"

text \<open>\<open>sep.join(parts)\<close>.\<close>

fun join :: "string \<Rightarrow> string list \<Rightarrow> string" where
  "join sep [] = []"
| "join sep [p] = p"
| "join sep (p # q # ps) = p @ sep @ join sep (q # ps)"

text \<open>
  White space as \<open>str.isspace\<close> sees it on ASCII: tab, line feed, vertical tab, form
  feed, carriage return, the four separators 28-31 and the space.
\<close>

definition is_space :: "char \<Rightarrow> bool" where
  "is_space c =
     (c \<in> set [CHR 0x09, CHR 0x0A, CHR 0x0B, CHR 0x0C, CHR 0x0D,
                CHR 0x1C, CHR 0x1D, CHR 0x1E, CHR 0x1F, CHR '' ''])"

text \<open>\<open>s.strip()\<close>.\<close>

definition strip :: "string \<Rightarrow> string" where
  "strip s = rev (dropWhile is_space (rev (dropWhile is_space s)))"

text \<open>\<open>s.split()\<close> with no argument: the maximal runs of non-space characters.\<close>

fun split_ws_from :: "string \<Rightarrow> string \<Rightarrow> string list" where
  "split_ws_from [] cur = (if cur = [] then [] else [rev cur])"
| "split_ws_from (c # cs) cur =
     (if is_space c then (if cur = [] then split_ws_from cs [] else rev cur # split_ws_from cs [])
      else split_ws_from cs (c # cur))"

definition split_ws :: "string \<Rightarrow> string list" where
  "split_ws s = split_ws_from s []"

text \<open>
  \<open>int(s)\<close> on ASCII text: surrounding white space is dropped, one sign is allowed,
  and the digits may be grouped by single underscores. \<open>None\<close> stands for the
  \<open>ValueError\<close> Python raises on anything else.
\<close>

definition decimal_digits :: string where
  "decimal_digits = ''0123456789''"

definition is_digit :: "char \<Rightarrow> bool" where
  "is_digit c = (c \<in> set decimal_digits)"

definition digit_val :: "char \<Rightarrow> int" where
  "digit_val c = int (length (takeWhile (\<lambda>d. d \<noteq> c) decimal_digits))"

fun digits_from :: "int \<Rightarrow> bool \<Rightarrow> string \<Rightarrow> int option" where
  "digits_from acc after_digit [] = (if after_digit then Some acc else None)"
| "digits_from acc after_digit (c # cs) =
     (if is_digit c then digits_from (acc * 10 + digit_val c) True cs
      else if c = CHR ''_'' \<and> after_digit then digits_from acc False cs
      else None)"

definition py_int :: "string \<Rightarrow> int option" where
  "py_int s =
     (case strip s of
        [] \<Rightarrow> None
      | c # cs \<Rightarrow>
          if c = CHR ''+'' then digits_from 0 False cs
          else if c = CHR ''-'' then map_option uminus (digits_from 0 False cs)
          else digits_from 0 False (c # cs))"

text \<open>\<open>str(n)\<close> for an integer: the decimal digits, with a minus sign when negative.\<close>

definition digit_char :: "nat \<Rightarrow> char" where
  "digit_char d = decimal_digits ! d"

function str_nat :: "nat \<Rightarrow> string" where
  "str_nat n = (if n < 10 then [digit_char n] else str_nat (n div 10) @ [digit_char (n mod 10)])"
  by pat_completeness auto
termination
  by (relation "measure id") auto

declare str_nat.simps [simp del]

definition str_int :: "int \<Rightarrow> string" where
  "str_int i = (if i < 0 then CHR ''-'' # str_nat (nat (- i)) else str_nat (nat i))"

text \<open>
  \<open>d.get(key, default)\<close> on a key that may be absent, and the rendering of
  \<open>d.get(key)\<close> inside an f-string (an absent key gives \<open>None\<close>).
\<close>

definition dict_get :: "'a option \<Rightarrow> 'a \<Rightarrow> 'a" where
  "dict_get v dflt = (case v of None \<Rightarrow> dflt | Some x \<Rightarrow> x)"

definition fmt_str :: "string option \<Rightarrow> string" where
  "fmt_str v = (case v of None \<Rightarrow> ''None'' | Some s \<Rightarrow> s)"

definition fmt_int :: "int option \<Rightarrow> string" where
  "fmt_int v = (case v of None \<Rightarrow> ''None'' | Some n \<Rightarrow> str_int n)"

section \<open>Data model (orchestrator.py)\<close>

text \<open>
  The records of the reports are dictionaries; they are modelled after \<open>json.load\<close>
  has returned, with the keys the scripts read and the value types the \<open>Issue\<close>
  dataclass declares for the fields they fill. A key may be absent.
\<close>

record sonar_item =
  item_id :: "string option"
  item_severity :: "string option"
  item_rule :: "string option"
  item_file :: "string option"
  item_component :: "string option"
  item_line :: "int option"
  item_message :: "string option"
  item_status :: "string option"
  item_effort :: "string option"

record coderabbit_item =
  cr_file :: "string option"
  cr_line :: "int option"
  cr_pr :: "int option"
  cr_severity :: "string option"
  cr_summary :: "string option"
  cr_status :: "string option"

text \<open>
  \<open>raw_data\<close> is the record an issue was built from; for a compiler line it is the
  dictionary \<open>{'original_line': ...}\<close>.
\<close>

datatype raw_record =
    SonarRaw sonar_item
  | CodeRabbitRaw coderabbit_item
  | TypeScriptRaw string

record Issue =
  issue_id :: string
  source :: string
  severity :: string
  rule_id :: string
  file_path :: string
  line :: int
  message :: string
  category :: string
  raw_data :: raw_record

record Job =
  job_id :: string
  issue :: Issue
  job_type :: string
  complexity_score :: int
  estimated_minutes :: int
  pattern :: "string option"
  requires_agents :: "string list"
  verification_level :: string
  similar_fixes :: "string list"
  created_at :: string

text \<open>
  An entry of the pattern library. The scorer reads \<open>complexity\<close> with a default, so
  the key may be absent; \<open>success_rate\<close> (a float that no code reads) is left out.
\<close>

record pattern_entry =
  entry_name :: string
  entry_complexity :: "int option"
  entry_pattern :: string
  verification :: string
  entry_minutes :: int

type_synonym pattern_library = "string \<Rightarrow> pattern_entry option"

text \<open>The exceptions that leave the ingestion functions.\<close>

datatype error = UnicodeDecodeError | JSONDecodeError | ValueError

text \<open>
  What \<open>open\<close> followed by \<open>json.load\<close> gives for a report file: one of the two
  exceptions, or the decoded data. A text file read line by line either fails to decode
  or gives its lines (each with its line end).
\<close>

datatype 'a json_file = Undecodable | Malformed | Loaded 'a

datatype text_file = UndecodableText | Lines "string list"

text \<open>
  A decoded SonarQube report: the custom format has the key \<open>error_categories\<close>, a
  mapping from a severity to a dictionary that may hold \<open>issues\<close>; the standard format
  may hold a flat \<open>issues\<close> list.
\<close>

datatype sonar_report =
    CustomFormat "(string \<times> sonar_item list option) list"
  | StandardFormat "sonar_item list option"

text \<open>
  The collaborators outside the program: the file system, the two git commands (a
  subprocess either raises or completes with a return code and its standard output) and
  the clock. The digest \<open>hashlib.md5(s.encode()).hexdigest()\<close> is a parameter of the
  ingestion functions.
\<close>

datatype process = Raised | Completed int string

record environment =
  path_exists :: "string \<Rightarrow> bool"
  git_blame :: "string \<Rightarrow> int \<Rightarrow> process"
  git_log :: "string \<Rightarrow> process"
  now_isoformat :: string

section \<open>Pattern library\<close>

definition single_return_entry :: pattern_entry where
  "single_return_entry =
     \<lparr>entry_name = ''single-return-refactor'', entry_complexity = Some 2,
      entry_pattern = ''Multiple early returns -> Single return point'',
      verification = ''BASIC'', entry_minutes = 5\<rparr>"

definition switch_case_entry :: pattern_entry where
  "switch_case_entry =
     \<lparr>entry_name = ''switch-case-breaks'', entry_complexity = Some 1,
      entry_pattern = ''Add break statements to switch cases'',
      verification = ''BASIC'', entry_minutes = 3\<rparr>"

definition async_await_entry :: pattern_entry where
  "async_await_entry =
     \<lparr>entry_name = ''async-await-fix'', entry_complexity = Some 3,
      entry_pattern = ''Add await to async function calls'',
      verification = ''MEDIUM'', entry_minutes = 8\<rparr>"

text \<open>The default library of \<open>load_patterns\<close>.\<close>

definition default_patterns :: pattern_library where
  "default_patterns = map_of
     [(''sonar-S3516'', single_return_entry),
      (''sonar-S128'', switch_case_entry),
      (''typescript-missing-await'', async_await_entry)]"

text \<open>\<open>load_patterns\<close>: the saved library when the file exists, the default otherwise.\<close>

definition load_patterns :: "pattern_library option \<Rightarrow> pattern_library" where
  "load_patterns saved = (case saved of Some lib \<Rightarrow> lib | None \<Rightarrow> default_patterns)"

section \<open>Ingestion\<close>

definition categorize_sonar_rule :: "string \<Rightarrow> string" where
  "categorize_sonar_rule rule =
     (let security_rules = [''S2068'', ''S2070'', ''S3649'', ''S4502'', ''S5122''];
          performance_rules = [''S1854'', ''S1481'', ''S3776''];
          maintainability_rules = [''S3516'', ''S128'', ''S1172'']
      in if list_ex (contains rule) security_rules then ''security''
         else if list_ex (contains rule) performance_rules then ''performance''
         else if list_ex (contains rule) maintainability_rules then ''maintainability''
         else ''general'')"

definition categorize_ts_error :: "string \<Rightarrow> string" where
  "categorize_ts_error error_code =
     (let type_errors = [''2345'', ''2322'', ''2339'', ''2304''];
          async_errors = [''1308'', ''2335'', ''2794''];
          import_errors = [''2307'', ''2306'', ''2305'']
      in if List.member type_errors error_code then ''types''
         else if List.member async_errors error_code then ''async''
         else if List.member import_errors error_code then ''imports''
         else ''syntax'')"

definition map_ts_severity :: "string \<Rightarrow> string" where
  "map_ts_severity error_code =
     (let critical_errors = [''1005'', ''1109'', ''1128''];
          major_errors = [''2345'', ''2322'', ''2339'']
      in if List.member critical_errors error_code then ''CRITICAL''
         else if List.member major_errors error_code then ''MAJOR''
         else ''MINOR'')"

definition map_coderabbit_severity :: "string \<Rightarrow> string" where
  "map_coderabbit_severity sev =
     (let severity_map =
            [(''critical'', ''CRITICAL''), (''major'', ''MAJOR''), (''minor'', ''MINOR''),
             (''refactor'', ''MINOR''), (''style'', ''INFO'')]
      in dict_get (map_of severity_map (lower sev)) ''MINOR'')"

text \<open>The first eight characters of the digest.\<close>

definition hash_suffix :: "(string \<Rightarrow> string) \<Rightarrow> string \<Rightarrow> string" where
  "hash_suffix md5 key = take 8 (md5 key)"

text \<open>The body of the loop over the custom format, for one record under one severity key.\<close>

definition custom_issue :: "(string \<Rightarrow> string) \<Rightarrow> string \<Rightarrow> sonar_item \<Rightarrow> Issue" where
  "custom_issue md5 sev item =
     (let file_line_key = fmt_str (item_file item) @ fmt_int (item_line item);
          suffix = hash_suffix md5 file_line_key
      in \<lparr>issue_id = dict_get (item_id item) (''sonar-'' @ fmt_str (item_rule item) @ ''-'' @ suffix),
          source = ''sonarqube'',
          severity = upper (dict_get (item_severity item) sev),
          rule_id = dict_get (item_rule item) '''',
          file_path = dict_get (item_file item) '''',
          line = dict_get (item_line item) 0,
          message = dict_get (item_message item) '''',
          category = categorize_sonar_rule (dict_get (item_rule item) ''''),
          raw_data = SonarRaw item\<rparr>)"

text \<open>The body of the loop over the standard format.\<close>

definition standard_issue :: "(string \<Rightarrow> string) \<Rightarrow> sonar_item \<Rightarrow> Issue" where
  "standard_issue md5 item =
     (let component_line = fmt_str (item_component item) @ fmt_int (item_line item);
          suffix = hash_suffix md5 component_line
      in \<lparr>issue_id = ''sonar-'' @ fmt_str (item_rule item) @ ''-'' @ suffix,
          source = ''sonarqube'',
          severity = upper (dict_get (item_severity item) ''UNKNOWN''),
          rule_id = dict_get (item_rule item) '''',
          file_path = dict_get (item_component item) '''',
          line = dict_get (item_line item) 0,
          message = dict_get (item_message item) '''',
          category = categorize_sonar_rule (dict_get (item_rule item) ''''),
          raw_data = SonarRaw item\<rparr>)"

text \<open>
  \<open>ingest_sonarqube\<close>: both exceptions of the load are caught and give no issues.
\<close>

definition ingest_sonarqube ::
    "(string \<Rightarrow> string) \<Rightarrow> sonar_report json_file \<Rightarrow> error + Issue list" where
  "ingest_sonarqube md5 file =
     (case file of
        Undecodable \<Rightarrow> Inr []
      | Malformed \<Rightarrow> Inr []
      | Loaded data \<Rightarrow>
          (case data of
             CustomFormat error_categories \<Rightarrow>
               Inr (concat (map (\<lambda>(sev, category_data).
                      map (custom_issue md5 sev) (dict_get category_data []))
                    error_categories))
           | StandardFormat issues \<Rightarrow>
               Inr (map (standard_issue md5) (dict_get issues []))))"

definition coderabbit_issue :: "(string \<Rightarrow> string) \<Rightarrow> coderabbit_item \<Rightarrow> Issue" where
  "coderabbit_issue md5 item =
     (let file_line_key = fmt_str (cr_file item) @ fmt_int (cr_line item);
          suffix = hash_suffix md5 file_line_key
      in \<lparr>issue_id = ''cr-'' @ fmt_int (cr_pr item) @ ''-'' @ suffix,
          source = ''coderabbit'',
          severity = map_coderabbit_severity (dict_get (cr_severity item) ''minor''),
          rule_id = ''CR-'' @ dict_get (cr_severity item) ''refactor'',
          file_path = dict_get (cr_file item) '''',
          line = dict_get (cr_line item) 0,
          message = dict_get (cr_summary item) '''',
          category = ''refactor'',
          raw_data = CodeRabbitRaw item\<rparr>)"

text \<open>\<open>ingest_coderabbit\<close> has no handler: an exception of the load leaves the function.\<close>

definition ingest_coderabbit ::
    "(string \<Rightarrow> string) \<Rightarrow> coderabbit_item list json_file \<Rightarrow> error + Issue list" where
  "ingest_coderabbit md5 file =
     (case file of
        Undecodable \<Rightarrow> Inl UnicodeDecodeError
      | Malformed \<Rightarrow> Inl JSONDecodeError
      | Loaded data \<Rightarrow> Inr (map (coderabbit_issue md5) data))"

text \<open>
  One line of compiler output: \<open>Inr None\<close> when the line is skipped, \<open>Inl ValueError\<close>
  when \<open>int\<close> rejects the text before the first comma of the position.
\<close>

definition typescript_line :: "(string \<Rightarrow> string) \<Rightarrow> string \<Rightarrow> error + Issue option" where
  "typescript_line md5 ln =
     (if contains ln ''error TS'' then
        (case split (strip ln) '': error TS'' of
           file_info # error_info # rest \<Rightarrow>
             (let path = hd (split file_info ''('');
                  line_info = (if contains file_info ''(''
                               then hd (split (split file_info ''('' ! 1) '')'')
                               else ''0,0'');
                  line_number = (if line_info \<noteq> [] then py_int (hd (split line_info '','')) else Some 0);
                  error_code = hd (split error_info '':'');
                  msg = strip (join '':'' (tl (split error_info '':'')))
              in case line_number of
                   None \<Rightarrow> Inl ValueError
                 | Some n \<Rightarrow>
                     (let file_line_key = path @ str_int n;
                          suffix = hash_suffix md5 file_line_key
                      in Inr (Some
                           \<lparr>issue_id = ''ts-'' @ error_code @ ''-'' @ suffix,
                            source = ''typescript'',
                            severity = map_ts_severity error_code,
                            rule_id = ''TS'' @ error_code,
                            file_path = path,
                            line = n,
                            message = msg,
                            category = categorize_ts_error error_code,
                            raw_data = TypeScriptRaw (strip ln)\<rparr>)))
         | _ \<Rightarrow> Inr None)
      else Inr None)"

text \<open>The loop over the lines: the first exception ends it.\<close>

fun typescript_lines :: "(string \<Rightarrow> string) \<Rightarrow> string list \<Rightarrow> Issue list \<Rightarrow> error + Issue list" where
  "typescript_lines md5 [] issues = Inr issues"
| "typescript_lines md5 (ln # lns) issues =
     (case typescript_line md5 ln of
        Inl e \<Rightarrow> Inl e
      | Inr None \<Rightarrow> typescript_lines md5 lns issues
      | Inr (Some i) \<Rightarrow> typescript_lines md5 lns (issues @ [i]))"

definition ingest_typescript :: "(string \<Rightarrow> string) \<Rightarrow> text_file \<Rightarrow> error + Issue list" where
  "ingest_typescript md5 file =
     (case file of
        UndecodableText \<Rightarrow> Inl UnicodeDecodeError
      | Lines lns \<Rightarrow> typescript_lines md5 lns [])"

text \<open>
  The ingestion steps of \<open>main\<close>: each report is ingested by the function its kind
  selects and its issues are appended to \<open>all_issues\<close>; nothing catches an exception, so
  the first one ends the run.
\<close>

datatype report =
    SonarQubeReport "sonar_report json_file"
  | CodeRabbitReport "coderabbit_item list json_file"
  | TypeScriptReport text_file

definition ingest_report :: "(string \<Rightarrow> string) \<Rightarrow> report \<Rightarrow> error + Issue list" where
  "ingest_report md5 r =
     (case r of
        SonarQubeReport f \<Rightarrow> ingest_sonarqube md5 f
      | CodeRabbitReport f \<Rightarrow> ingest_coderabbit md5 f
      | TypeScriptReport f \<Rightarrow> ingest_typescript md5 f)"

fun main_ingest :: "(string \<Rightarrow> string) \<Rightarrow> report list \<Rightarrow> Issue list \<Rightarrow> error + Issue list" where
  "main_ingest md5 [] all_issues = Inr all_issues"
| "main_ingest md5 (r # rs) all_issues =
     (case ingest_report md5 r of
        Inl e \<Rightarrow> Inl e
      | Inr issues \<Rightarrow> main_ingest md5 rs (all_issues @ issues))"

section \<open>Complexity scorer\<close>

text \<open>
  \<open>calculate_complexity\<close>, statement by statement: the severity base (3 for a severity
  outside the table), the library entry under the pattern key, the path and the category.
\<close>

definition severity_scores :: "(string \<times> int) list" where
  "severity_scores =
     [(''BLOCKER'', 8), (''CRITICAL'', 6), (''MAJOR'', 4), (''MINOR'', 2), (''INFO'', 1)]"

definition sensitive_paths :: "string list" where
  "sensitive_paths = [''/api/'', ''/auth/'', ''/payment/'', ''/marketplace/'']"

definition pattern_key :: "string \<Rightarrow> string" where
  "pattern_key rule = replace (lower rule) ''ts'' ''typescript-''"

definition calculate_complexity :: "pattern_library \<Rightarrow> Issue \<Rightarrow> int" where
  "calculate_complexity patterns i =
     (let score = 0;
          score = score + dict_get (map_of severity_scores (severity i)) 3;
          score = (case patterns (pattern_key (rule_id i)) of
                     None \<Rightarrow> score
                   | Some entry \<Rightarrow> dict_get (entry_complexity entry) score);
          score = (if list_ex (contains (lower (file_path i))) sensitive_paths
                   then score + 3 else score);
          score = (if category i = ''security'' then score + 4
                   else if category i = ''performance'' then score + 2
                   else score)
      in min score 10)"

section \<open>Router\<close>

text \<open>
  \<open>check_already_resolved\<close>: a record with status \<open>NEW\<close> is never resolved; a missing
  file is; otherwise the blame of the line decides, and an exception or a failing command
  means unresolved. The status is read from the record the issue was built from, whatever
  its source; the dictionary of a compiler line has no such key.
\<close>

definition raw_status :: "raw_record \<Rightarrow> string option" where
  "raw_status raw =
     (case raw of
        SonarRaw item \<Rightarrow> item_status item
      | CodeRabbitRaw item \<Rightarrow> cr_status item
      | TypeScriptRaw original_line \<Rightarrow> None)"

definition check_already_resolved :: "environment \<Rightarrow> Issue \<Rightarrow> bool" where
  "check_already_resolved env i =
     (if raw_status (raw_data i) = Some ''NEW'' then False
      else if \<not> path_exists env (file_path i) then True
      else (case git_blame env (file_path i) (line i) of
              Raised \<Rightarrow> False
            | Completed returncode stdout \<Rightarrow>
                if returncode \<noteq> 0 then False
                else contains (strip stdout) ''b0b8db54''))"

text \<open>
  \<open>find_similar_fixes\<close>: the first word of every non-empty line of the log. A line of
  white space only has no first word; the \<open>IndexError\<close> is caught with every other
  exception and the result is empty.
\<close>

fun first_words :: "string list \<Rightarrow> string list option" where
  "first_words [] = Some []"
| "first_words (ln # lns) =
     (if ln = [] then first_words lns
      else (case split_ws ln of
              [] \<Rightarrow> None
            | w # ws \<Rightarrow> map_option ((#) w) (first_words lns)))"

definition find_similar_fixes :: "environment \<Rightarrow> Issue \<Rightarrow> string list" where
  "find_similar_fixes env i =
     (case git_log env (rule_id i) of
        Raised \<Rightarrow> []
      | Completed returncode stdout \<Rightarrow>
          if returncode = 0
          then dict_get (first_words (split (strip stdout) [CHR 0x0A])) []
          else [])"

text \<open>\<open>get_pattern_name\<close>: the table in its insertion order, the first fragment found wins.\<close>

definition rule_patterns :: "(string \<times> string) list" where
  "rule_patterns =
     [(''S3516'', ''pattern-single-return''),
      (''S128'', ''pattern-switch-cases''),
      (''2794'', ''pattern-async-await''),
      (''2307'', ''pattern-import-fixes''),
      (''2345'', ''pattern-type-assertions'')]"

fun first_pattern :: "(string \<times> string) list \<Rightarrow> string \<Rightarrow> string" where
  "first_pattern [] rule = ''pattern-general''"
| "first_pattern ((rule_fragment, pat) # table) rule =
     (if contains rule rule_fragment then pat else first_pattern table rule)"

definition get_pattern_name :: "Issue \<Rightarrow> string" where
  "get_pattern_name i = first_pattern rule_patterns (rule_id i)"

definition route_issue :: "environment \<Rightarrow> pattern_library \<Rightarrow> Issue \<Rightarrow> Job" where
  "route_issue env patterns i =
     (if check_already_resolved env i then
        \<lparr>job_id = ''job-'' @ issue_id i,
         issue = i,
         job_type = ''SKIP'',
         complexity_score = 0,
         estimated_minutes = 1,
         pattern = Some ''already-resolved'',
         requires_agents = [],
         verification_level = ''NONE'',
         similar_fixes = [],
         created_at = now_isoformat env\<rparr>
      else
        (let complexity = calculate_complexity patterns i;
             fixes = find_similar_fixes env i
         in if complexity \<le> 3 then
              \<lparr>job_id = ''job-'' @ issue_id i,
               issue = i,
               job_type = ''SPEED'',
               complexity_score = complexity,
               estimated_minutes = 5,
               pattern = Some (get_pattern_name i),
               requires_agents = [],
               verification_level = ''BASIC'',
               similar_fixes = fixes,
               created_at = now_isoformat env\<rparr>
            else
              (let agents_needed = [];
                   agents_needed =
                     (if category i = ''security'' \<or> contains (lower (file_path i)) ''auth''
                      then agents_needed @ [''security-officer''] else agents_needed);
                   agents_needed =
                     (if complexity \<ge> 8
                      then agents_needed @ [''architecture-reviewer''] else agents_needed)
               in \<lparr>job_id = ''job-'' @ issue_id i,
                   issue = i,
                   job_type = ''DEEP'',
                   complexity_score = complexity,
                   estimated_minutes = complexity * 3,
                   pattern = None,
                   requires_agents = agents_needed,
                   verification_level = ''COMPREHENSIVE'',
                   similar_fixes = fixes,
                   created_at = now_isoformat env\<rparr>)))"

text \<open>\<open>process_issues\<close> routes every issue in turn (saving the jobs is left out).\<close>

definition process_issues :: "environment \<Rightarrow> pattern_library \<Rightarrow> Issue list \<Rightarrow> Job list" where
  "process_issues env patterns issues = map (route_issue env patterns) issues"

section \<open>The stand-alone parser (parse-sonarqube.py)\<close>

text \<open>
  \<open>parse_sonarqube_results\<close> writes one object per record that has a file path. The
  model returns the objects in the order written, with the fields taken from the record
  and the category; the fields computed by the other helpers are left out.
\<close>

record error_obj =
  eo_id :: string
  eo_source :: string
  eo_severity :: string
  eo_category :: string
  eo_rule :: string
  eo_file :: string
  eo_line :: int
  eo_message :: string
  eo_effort :: string

definition classify_category :: "string \<Rightarrow> string \<Rightarrow> string" where
  "classify_category rule msg =
     (let rule_lower = lower rule;
          message_lower = lower msg
      in if contains rule ''S4123'' \<or> contains message_lower ''await''
              \<or> contains message_lower ''async'' then ''ASYNC-AWAIT''
         else if contains rule_lower ''deprecated'' \<or> contains message_lower ''deprecated''
           then ''DEPRECATED-API''
         else if contains rule_lower ''complexity'' \<or> contains message_lower ''complex''
           then ''COMPLEXITY''
         else if contains rule ''TS'' \<or> contains rule_lower ''type''
              \<or> contains message_lower ''type'' then ''TYPE-ERRORS''
         else if contains rule_lower ''security'' \<or> contains rule_lower ''auth''
              \<or> contains message_lower ''password'' then ''SECURITY''
         else if contains message_lower ''unused'' \<or> contains rule ''S1128'' then ''UNUSED-CODE''
         else if contains message_lower ''duplicate'' then ''DUPLICATION''
         else ''GENERAL'')"

text \<open>The format \<open>{idx:05d}\<close> of a non-negative index.\<close>

definition zero_pad5 :: "nat \<Rightarrow> string" where
  "zero_pad5 idx = replicate (5 - length (str_nat idx)) CHR ''0'' @ str_nat idx"

definition parse_record :: "nat \<Rightarrow> sonar_item \<Rightarrow> error_obj option" where
  "parse_record idx item =
     (let sev = upper (dict_get (item_severity item) ''INFO'');
          rule = dict_get (item_rule item) ''unknown'';
          path = replace (dict_get (item_component item) '''') ''WedSync:'' '''';
          line_no = dict_get (item_line item) 0;
          msg = dict_get (item_message item) '''';
          effort = dict_get (item_effort item) ''5min''
      in if path = [] then None
         else Some
           \<lparr>eo_id = ''SQ-'' @ zero_pad5 idx,
            eo_source = ''SonarQube'',
            eo_severity = sev,
            eo_category = classify_category rule msg,
            eo_rule = rule,
            eo_file = path,
            eo_line = line_no,
            eo_message = msg,
            eo_effort = effort\<rparr>)"

fun parse_records :: "nat \<Rightarrow> sonar_item list \<Rightarrow> error_obj list" where
  "parse_records idx [] = []"
| "parse_records idx (item # items) =
     (case parse_record idx item of
        None \<Rightarrow> parse_records (Suc idx) items
      | Some obj \<Rightarrow> obj # parse_records (Suc idx) items)"

definition parse_sonarqube_results :: "sonar_item list \<Rightarrow> error_obj list" where
  "parse_sonarqube_results issues = parse_records 0 issues"

section \<open>The quantities the specification names\<close>

text \<open>
  The specification describes the score as a severity base, replaced by the library
  value for a known pattern, plus a path and a category adjustment, with a ceiling of 10.
  These definitions follow its words; the theorems compare them with
  \<open>calculate_complexity\<close>.
\<close>

definition severity_base :: "string \<Rightarrow> int" where
  "severity_base sev =
     (if sev = ''BLOCKER'' then 8 else if sev = ''CRITICAL'' then 6
      else if sev = ''MAJOR'' then 4 else if sev = ''MINOR'' then 2
      else if sev = ''INFO'' then 1 else 3)"

definition sensitive_path :: "string \<Rightarrow> bool" where
  "sensitive_path path = (\<exists>seg \<in> set sensitive_paths. contains (lower path) seg)"

definition path_adjustment :: "Issue \<Rightarrow> int" where
  "path_adjustment i = (if sensitive_path (file_path i) then 3 else 0)"

definition category_adjustment :: "Issue \<Rightarrow> int" where
  "category_adjustment i =
     (if category i = ''security'' then 4 else if category i = ''performance'' then 2 else 0)"

text \<open>
  The tuple the specification compares between two ingestions of a report, and the fields
  of a record of a standard report that it is built from.
\<close>

definition key_fields :: "sonar_item \<Rightarrow> string option \<times> int option \<times> string option \<times> string option" where
  "key_fields item = (item_component item, item_line item, item_rule item, item_severity item)"

definition issue_tuple :: "Issue \<Rightarrow> string \<times> int \<times> string \<times> string" where
  "issue_tuple i = (file_path i, line i, rule_id i, severity i)"

section \<open>Sample inputs\<close>

text \<open>
  Concrete inputs for the evaluations below. The digest is a stand-in (no statement
  depends on its values); in the quiet environment every file exists and git cannot be
  run, in the other one no file exists.
\<close>

definition sample_digest :: "string \<Rightarrow> string" where
  "sample_digest s = ''00000000000000000000000000000000''"

definition quiet_environment :: environment where
  "quiet_environment =
     \<lparr>path_exists = (\<lambda>p. True), git_blame = (\<lambda>p n. Raised), git_log = (\<lambda>r. Raised),
      now_isoformat = ''2025-01-01T00:00:00''\<rparr>"

definition empty_tree_environment :: environment where
  "empty_tree_environment =
     \<lparr>path_exists = (\<lambda>p. False), git_blame = (\<lambda>p n. Raised), git_log = (\<lambda>r. Raised),
      now_isoformat = ''2025-01-01T00:00:00''\<rparr>"

definition sonar_record ::
    "string option \<Rightarrow> string option \<Rightarrow> string option \<Rightarrow> int option \<Rightarrow> string option \<Rightarrow> sonar_item" where
  "sonar_record sev rule component ln msg =
     \<lparr>item_id = None, item_severity = sev, item_rule = rule, item_file = None,
      item_component = component, item_line = ln, item_message = msg,
      item_status = None, item_effort = None\<rparr>"

definition sample_issue :: "string \<Rightarrow> string \<Rightarrow> string \<Rightarrow> string \<Rightarrow> Issue" where
  "sample_issue sev rule path cat =
     \<lparr>issue_id = ''sonar-sample'', source = ''sonarqube'', severity = sev, rule_id = rule,
      file_path = path, line = 1, message = ''sample'', category = cat,
      raw_data = SonarRaw (sonar_record (Some sev) (Some rule) (Some path) (Some 1) (Some ''sample''))\<rparr>"

text \<open>The compiler line of scenario C, with its line end.\<close>

definition scenario_c_line :: string where
  "scenario_c_line =
     ''foo.ts(12,3): error TS2307: Cannot find module '' @ [CHR 0x27, CHR ''x'', CHR 0x27, CHR 0x0A]"

text \<open>
  The issue that \<open>ingest_typescript\<close> builds from that line (a theorem below says so);
  only its identifier depends on the digest.
\<close>

definition scenario_c_issue :: "(string \<Rightarrow> string) \<Rightarrow> Issue" where
  "scenario_c_issue md5 =
     \<lparr>issue_id = ''ts-2307-'' @ hash_suffix md5 ''foo.ts12'',
      source = ''typescript'',
      severity = ''MINOR'',
      rule_id = ''TS2307'',
      file_path = ''foo.ts'',
      line = 12,
      message = ''Cannot find module '' @ [CHR 0x27, CHR ''x'', CHR 0x27],
      category = ''imports'',
      raw_data = TypeScriptRaw
        (''foo.ts(12,3): error TS2307: Cannot find module '' @ [CHR 0x27, CHR ''x'', CHR 0x27])\<rparr>"

text \<open>A library with one entry of complexity 2, under the key of the rule \<open>S3516\<close>.\<close>

definition single_return_library :: pattern_library where
  "single_return_library = map_of [(''s3516'', single_return_entry)]"

text \<open>Issues for the evaluations: scores 3 and 4, scenario A, and three blockers.\<close>

definition speed_sample :: Issue where
  "speed_sample = sample_issue ''UNKNOWN'' ''typescript:S3516'' ''src/utils/date.ts'' ''maintainability''"

definition deep_sample :: Issue where
  "deep_sample = sample_issue ''MAJOR'' ''typescript:S1172'' ''src/utils/date.ts'' ''maintainability''"

definition security_sample :: Issue where
  "security_sample = sample_issue ''CRITICAL'' ''S4502'' ''proj:src/api/pay.ts'' ''security''"

definition blocker_sample :: Issue where
  "blocker_sample = sample_issue ''BLOCKER'' ''S3516'' ''src/utils/date.ts'' ''maintainability''"





text \<open>A CodeRabbit record with the status \<open>NEW\<close>.\<close>

definition new_coderabbit_record :: coderabbit_item where
  "new_coderabbit_record =
     \<lparr>cr_file = Some ''src/utils/date.ts'', cr_line = Some 5, cr_pr = Some 42,
      cr_severity = Some ''major'', cr_summary = Some ''extract a helper'',
      cr_status = Some ''NEW''\<rparr>"

text \<open>The issue of score 3 again, with another identifier, line and message.\<close>

definition reworded_speed_sample :: Issue where
  "reworded_speed_sample = speed_sample\<lparr>issue_id := ''sonar-other'', line := 99, message := ''other''\<rparr>"

text \<open>
  Records of a standard report: scenario A and a copy with another message, a record
  with no severity, and a record whose rule is the key of the third default entry.
\<close>

definition scenario_a_record :: sonar_item where
  "scenario_a_record =
     sonar_record (Some ''critical'') (Some ''S4502'') (Some ''proj:src/api/pay.ts'') (Some 10)
       (Some ''missing auth check'')"

definition reworded_record :: sonar_item where
  "reworded_record =
     sonar_record (Some ''critical'') (Some ''S4502'') (Some ''proj:src/api/pay.ts'') (Some 10)
       (Some ''authorization is not checked'')"

definition bare_record :: sonar_item where
  "bare_record =
     sonar_record None (Some ''S1172'') (Some ''src/utils/date.ts'') (Some 3)
       (Some ''unused parameter'')"

definition await_record :: sonar_item where
  "await_record =
     sonar_record (Some ''BLOCKER'') (Some ''typescript-missing-await'') (Some ''src/utils/date.ts'')
       (Some 7) (Some ''promise is not awaited'')"

section \<open>Facts about the string operations\<close>

lemmas char_table_defs = lower_char_def upper_char_def upper_letters_def lower_letters_def

lemma lower_char_not_upper: "lower_char c \<notin> set upper_letters"
  by (auto simp: char_table_defs split: option.splits if_splits)

lemma set_replace_from: "set (replace_from k s old new) \<subseteq> set s \<union> set new"
  by (induction k s old new rule: replace_from.induct) auto

lemma set_replace: "set (replace s old new) \<subseteq> set s \<union> set new"
  unfolding replace_def by (rule set_replace_from)

lemma pattern_key_no_upper:
  assumes "c \<in> set upper_letters"
  shows "c \<notin> set (pattern_key r)"
proof
  assume "c \<in> set (pattern_key r)"
  then have "c \<in> set (lower r) \<union> set ''typescript-''"
    unfolding pattern_key_def using set_replace by blast
  moreover have "c \<notin> set (lower r)"
    using assms lower_char_not_upper by (auto simp: lower_def)
  moreover have "c \<notin> set ''typescript-''"
    using assms by (auto simp: upper_letters_def)
  ultimately show False by blast
qed

lemma pattern_key_not_S3516: "pattern_key r \<noteq> ''sonar-S3516''"
proof
  assume "pattern_key r = ''sonar-S3516''"
  then have "CHR ''S'' \<in> set (pattern_key r)" by simp
  moreover have "CHR ''S'' \<in> set upper_letters" by (simp add: upper_letters_def)
  ultimately show False using pattern_key_no_upper by blast
qed

lemma pattern_key_not_S128: "pattern_key r \<noteq> ''sonar-S128''"
proof
  assume "pattern_key r = ''sonar-S128''"
  then have "CHR ''S'' \<in> set (pattern_key r)" by simp
  moreover have "CHR ''S'' \<in> set upper_letters" by (simp add: upper_letters_def)
  ultimately show False using pattern_key_no_upper by blast
qed

lemma startswith_iff: "startswith p s \<longleftrightarrow> (\<exists>post. s = p @ post)"
  by (induction p s rule: startswith.induct) auto

lemma contains_iff: "contains s sub \<longleftrightarrow> (\<exists>pre post. s = pre @ sub @ post)"
proof (induction s)
  case Nil
  then show ?case by auto
next
  case (Cons c cs)
  show ?case
  proof
    assume "contains (c # cs) sub"
    then consider "startswith sub (c # cs)" | "contains cs sub" by auto
    then show "\<exists>pre post. c # cs = pre @ sub @ post"
    proof cases
      case 1
      then obtain post where "c # cs = sub @ post" using startswith_iff by blast
      then have "c # cs = [] @ sub @ post" by simp
      then show ?thesis by blast
    next
      case 2
      then obtain pre post where "cs = pre @ sub @ post" using Cons.IH by blast
      then have "c # cs = (c # pre) @ sub @ post" by simp
      then show ?thesis by blast
    qed
  next
    assume "\<exists>pre post. c # cs = pre @ sub @ post"
    then obtain pre post where eq: "c # cs = pre @ sub @ post" by blast
    show "contains (c # cs) sub"
    proof (cases pre)
      case Nil
      with eq have "startswith sub (c # cs)" using startswith_iff by auto
      then show ?thesis by simp
    next
      case (Cons d pre')
      with eq have "cs = pre' @ sub @ post" by simp
      then have "contains cs sub" using Cons.IH by blast
      then show ?thesis by simp
    qed
  qed
qed

text \<open>A lower-case fragment found in a string is found in the lower-cased string.\<close>

lemma contains_lower:
  assumes "contains s sub" and "lower sub = sub"
  shows "contains (lower s) sub"
proof -
  obtain pre post where "s = pre @ sub @ post" using assms(1) contains_iff by blast
  then have "lower s = lower pre @ sub @ lower post"
    using assms(2) by (simp add: lower_def)
  then show ?thesis using contains_iff by blast
qed

lemma first_pattern_find:
  "first_pattern table rule =
     (case find (\<lambda>(frag, name). contains rule frag) table of
        None \<Rightarrow> ''pattern-general'' | Some (frag, name) \<Rightarrow> name)"
  by (induction table) auto

text \<open>\<open>split\<close> never returns the empty list, so its first piece exists.\<close>

lemma split_from_not_Nil: "split_from k s sep cur \<noteq> []"
  by (induction k s sep cur rule: split_from.induct) auto

lemma split_not_Nil: "split s sep \<noteq> []"
  by (simp add: split_def split_from_not_Nil)

text \<open>
  Where the separator occurs there is a second piece: the index 1 that
  \<open>ingest_typescript\<close> reads after testing for the bracket is in range.
\<close>

lemma split_from_second_piece:
  assumes "contains s sep" and "sep \<noteq> []"
  shows "2 \<le> length (split_from 0 s sep cur)"
  using assms
proof (induction s arbitrary: cur)
  case Nil
  then show ?case by simp
next
  case (Cons c cs)
  show ?case
  proof (cases "startswith sep (c # cs)")
    case True
    have "1 \<le> length (split_from (length sep - 1) cs sep [])"
      using split_from_not_Nil [of "length sep - 1" cs sep "[]"]
      by (cases "split_from (length sep - 1) cs sep []") auto
    with True show ?thesis by simp
  next
    case False
    with Cons.prems have "contains cs sep" by simp
    then show ?thesis using Cons.IH Cons.prems(2) False by simp
  qed
qed

lemma split_second_piece: "contains s sep \<Longrightarrow> sep \<noteq> [] \<Longrightarrow> 2 \<le> length (split s sep)"
  by (simp add: split_def split_from_second_piece)

section \<open>Facts about the scorer\<close>

text \<open>The statements of \<open>calculate_complexity\<close> add up to the specification's formula.\<close>

lemma severity_base_eq: "dict_get (map_of severity_scores sev) 3 = severity_base sev"
  by (simp add: severity_scores_def severity_base_def dict_get_def)

lemma sensitive_path_eq: "list_ex (contains (lower p)) sensitive_paths = sensitive_path p"
  by (simp add: sensitive_path_def list_ex_iff)

lemma calculate_complexity_eq:
  "calculate_complexity P i =
     min ((case P (pattern_key (rule_id i)) of
             None \<Rightarrow> severity_base (severity i)
           | Some e \<Rightarrow> dict_get (entry_complexity e) (severity_base (severity i)))
          + path_adjustment i + category_adjustment i) 10"
  unfolding calculate_complexity_def Let_def severity_base_eq sensitive_path_eq
    path_adjustment_def category_adjustment_def
  by (simp split: option.splits)


section \<open>Evaluations on the sample inputs\<close>

lemma quiet_unresolved: "\<not> check_already_resolved quiet_environment i"
  by (simp add: check_already_resolved_def quiet_environment_def)

lemma key_S3516: "pattern_key ''typescript:S3516'' = ''typescript:s3516''"
  by (simp add: pattern_key_def replace_def lower_def char_table_defs)

lemma key_S1172: "pattern_key ''typescript:S1172'' = ''typescript:s1172''"
  by (simp add: pattern_key_def replace_def lower_def char_table_defs)

lemma date_path_plain: "\<not> sensitive_path ''src/utils/date.ts''"
  by (simp add: sensitive_path_def sensitive_paths_def lower_def char_table_defs)

lemma score3:
  "calculate_complexity default_patterns
     (sample_issue ''UNKNOWN'' ''typescript:S3516'' ''src/utils/date.ts'' ''maintainability'') = 3"
  by (simp add: calculate_complexity_eq sample_issue_def key_S3516 default_patterns_def
      severity_base_def path_adjustment_def category_adjustment_def date_path_plain)

lemma score4:
  "calculate_complexity default_patterns
     (sample_issue ''MAJOR'' ''typescript:S1172'' ''src/utils/date.ts'' ''maintainability'') = 4"
  by (simp add: calculate_complexity_eq sample_issue_def key_S1172 default_patterns_def
      severity_base_def path_adjustment_def category_adjustment_def date_path_plain)

lemma find3:
  "(case find (\<lambda>(frag, name). contains ''typescript:S3516'' frag) rule_patterns of
      None \<Rightarrow> ''pattern-general'' | Some (frag, name) \<Rightarrow> name) = ''pattern-single-return''"
  by (simp add: rule_patterns_def)

text \<open>A record with the status \<open>NEW\<close> is unresolved in every environment.\<close>

lemma status_new_unresolved:
  "raw_status (raw_data i) = Some ''NEW'' \<Longrightarrow> \<not> check_already_resolved env i"
  by (simp add: check_already_resolved_def)

lemma new_coderabbit_unresolved:
  "\<not> check_already_resolved env (coderabbit_issue sample_digest new_coderabbit_record)"
  by (rule status_new_unresolved)
     (simp add: coderabbit_issue_def Let_def raw_status_def new_coderabbit_record_def)

lemma key_CR_major: "pattern_key ''CR-major'' = ''cr-major''"
  by (simp add: pattern_key_def replace_def lower_def char_table_defs)

lemma score_new_coderabbit:
  "calculate_complexity default_patterns (coderabbit_issue sample_digest new_coderabbit_record) = 4"
  by (simp add: calculate_complexity_eq coderabbit_issue_def Let_def new_coderabbit_record_def
      dict_get_def map_coderabbit_severity_def lower_def char_table_defs key_CR_major
      default_patterns_def severity_base_def path_adjustment_def category_adjustment_def
      date_path_plain)

section \<open>Routing by complexity\<close>

text \<open>
  Claim C1. For an issue that is not already resolved the score alone decides the route,
  and the threshold is inclusive on the SPEED side. A score of at most 3 (3 included)
  gives a SPEED job with verification BASIC, 5 estimated minutes and the pattern name of
  the first fragment of the rule table that occurs in the rule identifier, or
  \<open>pattern-general\<close> when no fragment occurs. A score above 3 (4 included) gives a
  DEEP job with verification COMPREHENSIVE, three minutes per point of the score and no
  pattern.
\<close>

theorem route_by_complexity:
  assumes "\<not> check_already_resolved env i"
  shows "(calculate_complexity P i \<le> 3 \<longrightarrow>
            job_type (route_issue env P i) = ''SPEED''
          \<and> verification_level (route_issue env P i) = ''BASIC''
          \<and> estimated_minutes (route_issue env P i) = 5
          \<and> pattern (route_issue env P i) =
              Some (case find (\<lambda>(frag, name). contains (rule_id i) frag) rule_patterns of
                      None \<Rightarrow> ''pattern-general'' | Some (frag, name) \<Rightarrow> name)
          \<and> ((\<forall>(frag, name) \<in> set rule_patterns. \<not> contains (rule_id i) frag) \<longrightarrow>
               pattern (route_issue env P i) = Some ''pattern-general''))
       \<and> (3 < calculate_complexity P i \<longrightarrow>
            job_type (route_issue env P i) = ''DEEP''
          \<and> verification_level (route_issue env P i) = ''COMPREHENSIVE''
          \<and> estimated_minutes (route_issue env P i) = calculate_complexity P i * 3
          \<and> pattern (route_issue env P i) = None)"
proof (intro conjI impI)
  assume le: "calculate_complexity P i \<le> 3"
  then have job: "route_issue env P i =
      \<lparr>job_id = ''job-'' @ issue_id i, issue = i, job_type = ''SPEED'',
       complexity_score = calculate_complexity P i, estimated_minutes = 5,
       pattern = Some (get_pattern_name i), requires_agents = [],
       verification_level = ''BASIC'', similar_fixes = find_similar_fixes env i,
       created_at = now_isoformat env\<rparr>"
    using assms by (simp add: route_issue_def Let_def)
  show "job_type (route_issue env P i) = ''SPEED''" by (simp add: job)
  show "verification_level (route_issue env P i) = ''BASIC''" by (simp add: job)
  show "estimated_minutes (route_issue env P i) = 5" by (simp add: job)
  show "pattern (route_issue env P i) =
      Some (case find (\<lambda>(frag, name). contains (rule_id i) frag) rule_patterns of
              None \<Rightarrow> ''pattern-general'' | Some (frag, name) \<Rightarrow> name)"
    by (simp only: job Job.simps get_pattern_name_def first_pattern_find)
  assume none: "\<forall>(frag, name) \<in> set rule_patterns. \<not> contains (rule_id i) frag"
  then have "find (\<lambda>(frag, name). contains (rule_id i) frag) rule_patterns = None"
    by (auto simp: find_None_iff)
  then show "pattern (route_issue env P i) = Some ''pattern-general''"
    by (simp only: job Job.simps get_pattern_name_def first_pattern_find option.case)
next
  assume gt: "3 < calculate_complexity P i"
  then have nle: "\<not> calculate_complexity P i \<le> 3" by simp
  show "job_type (route_issue env P i) = ''DEEP''"
    using assms nle by (simp add: route_issue_def Let_def)
  show "verification_level (route_issue env P i) = ''COMPREHENSIVE''"
    using assms nle by (simp add: route_issue_def Let_def)
  show "estimated_minutes (route_issue env P i) = calculate_complexity P i * 3"
    using assms nle by (simp add: route_issue_def Let_def)
  show "pattern (route_issue env P i) = None"
    using assms nle by (simp add: route_issue_def Let_def)
qed

text \<open>
  The theorem at a score of exactly 3 and at a score of exactly 4, and on a CodeRabbit
  record with the status \<open>NEW\<close> whose file is gone: it is not resolved and is routed by
  its score.
\<close>

theorem route_by_complexity_witness:
  "\<not> check_already_resolved quiet_environment speed_sample
   \<and> calculate_complexity default_patterns speed_sample = 3
   \<and> job_type (route_issue quiet_environment default_patterns speed_sample) = ''SPEED''
   \<and> verification_level (route_issue quiet_environment default_patterns speed_sample) = ''BASIC''
   \<and> estimated_minutes (route_issue quiet_environment default_patterns speed_sample) = 5
   \<and> pattern (route_issue quiet_environment default_patterns speed_sample)
        = Some ''pattern-single-return''
   \<and> \<not> check_already_resolved quiet_environment deep_sample
   \<and> calculate_complexity default_patterns deep_sample = 4
   \<and> job_type (route_issue quiet_environment default_patterns deep_sample) = ''DEEP''
   \<and> verification_level (route_issue quiet_environment default_patterns deep_sample) = ''COMPREHENSIVE''
   \<and> estimated_minutes (route_issue quiet_environment default_patterns deep_sample) = 12
   \<and> pattern (route_issue quiet_environment default_patterns deep_sample) = None
   \<and> \<not> path_exists empty_tree_environment
         (file_path (coderabbit_issue sample_digest new_coderabbit_record))
   \<and> \<not> check_already_resolved empty_tree_environment
         (coderabbit_issue sample_digest new_coderabbit_record)
   \<and> calculate_complexity default_patterns
         (coderabbit_issue sample_digest new_coderabbit_record) = 4
   \<and> job_type (route_issue empty_tree_environment default_patterns
         (coderabbit_issue sample_digest new_coderabbit_record)) = ''DEEP''
   \<and> estimated_minutes (route_issue empty_tree_environment default_patterns
         (coderabbit_issue sample_digest new_coderabbit_record)) = 12"
proof -
  have rid: "rule_id speed_sample = ''typescript:S3516''"
    by (simp add: speed_sample_def sample_issue_def)
  have c3: "calculate_complexity default_patterns speed_sample = 3"
    unfolding speed_sample_def by (rule score3)
  have c4: "calculate_complexity default_patterns deep_sample = 4"
    unfolding deep_sample_def by (rule score4)
  have le: "calculate_complexity default_patterns speed_sample \<le> 3" by (simp add: c3)
  have gt: "3 < calculate_complexity default_patterns deep_sample" by (simp add: c4)
  note speed = route_by_complexity [OF quiet_unresolved, of default_patterns speed_sample,
      THEN conjunct1, THEN mp, OF le]
  note deep = route_by_complexity [OF quiet_unresolved, of default_patterns deep_sample,
      THEN conjunct2, THEN mp, OF gt]
  have p3: "pattern (route_issue quiet_environment default_patterns speed_sample)
      = Some ''pattern-single-return''"
    using speed [THEN conjunct2, THEN conjunct2, THEN conjunct2, THEN conjunct1]
    by (simp only: rid find3)
  have m4: "estimated_minutes (route_issue quiet_environment default_patterns deep_sample) = 12"
    using deep [THEN conjunct2, THEN conjunct2, THEN conjunct1] by (simp add: c4)
  have gone: "\<not> path_exists empty_tree_environment
      (file_path (coderabbit_issue sample_digest new_coderabbit_record))"
    by (simp add: empty_tree_environment_def)
  have gtc: "3 < calculate_complexity default_patterns
      (coderabbit_issue sample_digest new_coderabbit_record)"
    by (simp add: score_new_coderabbit)
  note cr = route_by_complexity [OF new_coderabbit_unresolved, of default_patterns,
      THEN conjunct2, THEN mp, OF gtc]
  have mc: "estimated_minutes (route_issue empty_tree_environment default_patterns
      (coderabbit_issue sample_digest new_coderabbit_record)) = 12"
    using cr [THEN conjunct2, THEN conjunct2, THEN conjunct1]
    by (simp add: score_new_coderabbit)
  show ?thesis
    using quiet_unresolved c3 c4 p3 m4
      speed [THEN conjunct1] speed [THEN conjunct2, THEN conjunct1]
      speed [THEN conjunct2, THEN conjunct2, THEN conjunct1]
      deep [THEN conjunct1] deep [THEN conjunct2, THEN conjunct1]
      deep [THEN conjunct2, THEN conjunct2, THEN conjunct2]
      gone new_coderabbit_unresolved score_new_coderabbit cr [THEN conjunct1] mc
    by (intro conjI)
qed

section \<open>Issues that are already resolved\<close>

lemma empty_tree_resolved: "raw_status (raw_data i) \<noteq> Some ''NEW'' \<Longrightarrow> check_already_resolved empty_tree_environment i"
  by (simp add: check_already_resolved_def empty_tree_environment_def)

lemma sample_status: "raw_status (raw_data (sample_issue sev rule path cat)) = None"
  by (simp add: sample_issue_def raw_status_def sonar_record_def)

text \<open>
  Claim C7. When the already-resolved check answers yes, the router returns a SKIP job
  with verification NONE, 1 estimated minute, the pattern \<open>already-resolved\<close> and no
  agents. The score is not computed: the job carries the score 0 and is the same for
  every pattern library.
\<close>

theorem resolved_issue_is_skipped:
  assumes "check_already_resolved env i"
  shows "job_type (route_issue env P i) = ''SKIP''
       \<and> verification_level (route_issue env P i) = ''NONE''
       \<and> estimated_minutes (route_issue env P i) = 1
       \<and> pattern (route_issue env P i) = Some ''already-resolved''
       \<and> requires_agents (route_issue env P i) = []
       \<and> complexity_score (route_issue env P i) = 0
       \<and> route_issue env P i = route_issue env P' i"
  using assms by (simp add: route_issue_def)

text \<open>The theorem on an issue whose file is gone.\<close>

theorem resolved_issue_is_skipped_witness:
  "check_already_resolved empty_tree_environment speed_sample
   \<and> job_type (route_issue empty_tree_environment default_patterns speed_sample) = ''SKIP''
   \<and> verification_level (route_issue empty_tree_environment default_patterns speed_sample) = ''NONE''
   \<and> estimated_minutes (route_issue empty_tree_environment default_patterns speed_sample) = 1
   \<and> pattern (route_issue empty_tree_environment default_patterns speed_sample) = Some ''already-resolved''
   \<and> requires_agents (route_issue empty_tree_environment default_patterns speed_sample) = []
   \<and> complexity_score (route_issue empty_tree_environment default_patterns speed_sample) = 0"
proof -
  have r: "check_already_resolved empty_tree_environment speed_sample"
    by (rule empty_tree_resolved) (simp add: speed_sample_def sample_status)
  note skip = resolved_issue_is_skipped [OF r, of default_patterns default_patterns]
  show ?thesis
    using r skip [THEN conjunct1] skip [THEN conjunct2, THEN conjunct1]
      skip [THEN conjunct2, THEN conjunct2, THEN conjunct1]
      skip [THEN conjunct2, THEN conjunct2, THEN conjunct2, THEN conjunct1]
      skip [THEN conjunct2, THEN conjunct2, THEN conjunct2, THEN conjunct2, THEN conjunct1]
      skip [THEN conjunct2, THEN conjunct2, THEN conjunct2, THEN conjunct2, THEN conjunct2, THEN conjunct1]
    by (intro conjI)
qed

section \<open>Agents required by a job\<close>

lemma lower_auth: "lower ''auth'' = ''auth''"
  by (simp add: lower_def char_table_defs)

lemma key_S4502: "pattern_key ''S4502'' = ''s4502''"
  by (simp add: pattern_key_def replace_def lower_def char_table_defs)

lemma pay_path_sensitive: "sensitive_path ''proj:src/api/pay.ts''"
  by (simp add: sensitive_path_def sensitive_paths_def lower_def char_table_defs)

lemma score_security_sample: "calculate_complexity default_patterns security_sample = 10"
  by (simp add: calculate_complexity_eq security_sample_def sample_issue_def key_S4502
      default_patterns_def severity_base_def path_adjustment_def category_adjustment_def
      pay_path_sensitive)

lemma speed_sample_job: "job_type (route_issue quiet_environment default_patterns speed_sample) = ''SPEED''"
  using score3 quiet_unresolved
  by (simp add: route_issue_def Let_def speed_sample_def del: contains.simps)

lemma security_sample_job: "job_type (route_issue quiet_environment default_patterns security_sample) = ''DEEP''"
  using score_security_sample quiet_unresolved
  by (simp add: route_issue_def Let_def del: contains.simps)

text \<open>
  Claim C8. A DEEP job requires the security role \<open>security-officer\<close> when the
  category of the issue is security or its file path contains \<open>auth\<close> (the code looks
  for it in the lower-cased path, which finds every path that contains it as written), and
  the architecture review role \<open>architecture-reviewer\<close> when the score is at least 8.
  A SPEED job requires no agent.
\<close>

theorem agents_by_route:
  "(job_type (route_issue env P i) = ''DEEP'' \<longrightarrow>
      requires_agents (route_issue env P i) =
        (if category i = ''security'' \<or> contains (lower (file_path i)) ''auth''
         then [''security-officer''] else [])
        @ (if 8 \<le> calculate_complexity P i then [''architecture-reviewer''] else [])
    \<and> (category i = ''security'' \<or> contains (file_path i) ''auth'' \<longrightarrow>
         ''security-officer'' \<in> set (requires_agents (route_issue env P i)))
    \<and> (8 \<le> complexity_score (route_issue env P i) \<longrightarrow>
         ''architecture-reviewer'' \<in> set (requires_agents (route_issue env P i))))
   \<and> (job_type (route_issue env P i) = ''SPEED'' \<longrightarrow>
         requires_agents (route_issue env P i) = [])"
proof (intro conjI impI)
  assume deep: "job_type (route_issue env P i) = ''DEEP''"
  have nr: "\<not> check_already_resolved env i"
    using deep by (auto simp: route_issue_def)
  have gt: "\<not> calculate_complexity P i \<le> 3"
    using deep nr by (auto simp: route_issue_def Let_def)
  show agents: "requires_agents (route_issue env P i) =
        (if category i = ''security'' \<or> contains (lower (file_path i)) ''auth''
         then [''security-officer''] else [])
        @ (if 8 \<le> calculate_complexity P i then [''architecture-reviewer''] else [])"
    using nr gt by (simp add: route_issue_def Let_def)
  have score: "complexity_score (route_issue env P i) = calculate_complexity P i"
    using nr gt by (simp add: route_issue_def Let_def)
  {
    assume "category i = ''security'' \<or> contains (file_path i) ''auth''"
    then have "category i = ''security'' \<or> contains (lower (file_path i)) ''auth''"
      using contains_lower [OF _ lower_auth] by blast
    then show "''security-officer'' \<in> set (requires_agents (route_issue env P i))"
      by (simp only: agents if_True set_append set_simps UnI1 insertI1)
  }
  {
    assume "8 \<le> complexity_score (route_issue env P i)"
    then have "8 \<le> calculate_complexity P i" by (simp only: score)
    then show "''architecture-reviewer'' \<in> set (requires_agents (route_issue env P i))"
      by (simp only: agents if_True set_append set_simps UnI2 insertI1)
  }
next
  assume speed: "job_type (route_issue env P i) = ''SPEED''"
  show "requires_agents (route_issue env P i) = []"
  proof (cases "check_already_resolved env i")
    case True
    then show ?thesis by (simp add: route_issue_def)
  next
    case False
    show ?thesis
    proof (cases "calculate_complexity P i \<le> 3")
      case True
      with False show ?thesis by (simp add: route_issue_def Let_def)
    next
      case gt: False
      with False have "job_type (route_issue env P i) = ''DEEP''"
        by (simp add: route_issue_def Let_def)
      with speed show ?thesis by simp
    qed
  qed
qed

text \<open>The theorem on scenario A (DEEP, both roles) and on a SPEED job.\<close>

theorem agents_by_route_witness:
  "job_type (route_issue quiet_environment default_patterns security_sample) = ''DEEP''
   \<and> category security_sample = ''security''
   \<and> complexity_score (route_issue quiet_environment default_patterns security_sample) = 10
   \<and> ''security-officer'' \<in> set (requires_agents (route_issue quiet_environment default_patterns security_sample))
   \<and> ''architecture-reviewer'' \<in> set (requires_agents (route_issue quiet_environment default_patterns security_sample))
   \<and> job_type (route_issue quiet_environment default_patterns speed_sample) = ''SPEED''
   \<and> requires_agents (route_issue quiet_environment default_patterns speed_sample) = []"
proof -
  have cat: "category security_sample = ''security''"
    by (simp add: security_sample_def sample_issue_def)
  have sc: "complexity_score (route_issue quiet_environment default_patterns security_sample) = 10"
    using score_security_sample quiet_unresolved
    by (simp add: route_issue_def Let_def del: contains.simps)
  note deep = agents_by_route [of quiet_environment default_patterns security_sample,
      THEN conjunct1, THEN mp, OF security_sample_job]
  note speed = agents_by_route [of quiet_environment default_patterns speed_sample,
      THEN conjunct2, THEN mp, OF speed_sample_job]
  have so: "''security-officer'' \<in> set (requires_agents (route_issue quiet_environment default_patterns security_sample))"
    using deep [THEN conjunct2, THEN conjunct1] cat by blast
  have ar: "''architecture-reviewer'' \<in> set (requires_agents (route_issue quiet_environment default_patterns security_sample))"
    using deep [THEN conjunct2, THEN conjunct2] sc by simp
  show ?thesis
    using security_sample_job cat sc so ar speed_sample_job speed by (intro conjI)
qed

section \<open>Known patterns override the severity\<close>

lemma key_S3516_bare: "pattern_key ''S3516'' = ''s3516''"
  by (simp add: pattern_key_def replace_def lower_def char_table_defs)

lemma blocker_default: "calculate_complexity default_patterns blocker_sample = 8"
  by (simp add: calculate_complexity_eq blocker_sample_def sample_issue_def key_S3516_bare
      default_patterns_def severity_base_def path_adjustment_def category_adjustment_def
      date_path_plain)

text \<open>
  Claim C2. When the pattern key of the rule identifier has an entry in the library and
  the entry gives a complexity, that value stands in place of the severity base: the score
  is the value plus the path and category adjustments, with the ceiling of 10, and does
  not depend on the severity. In particular an entry of complexity 2, a path that is not
  sensitive and a category other than security and performance give the score 2, also
  for the severity BLOCKER.
\<close>

theorem library_overrides_severity:
  assumes "P (pattern_key (rule_id i)) = Some e" and "entry_complexity e = Some c"
  shows "calculate_complexity P i = min (c + path_adjustment i + category_adjustment i) 10
       \<and> calculate_complexity P (i\<lparr>severity := sev\<rparr>) = calculate_complexity P i
       \<and> (c = 2 \<and> \<not> sensitive_path (file_path i) \<and> category i \<noteq> ''security''
              \<and> category i \<noteq> ''performance'' \<longrightarrow>
            calculate_complexity P i = 2
          \<and> calculate_complexity P (i\<lparr>severity := ''BLOCKER''\<rparr>) = 2)"
  using assms
  by (simp add: calculate_complexity_eq dict_get_def path_adjustment_def category_adjustment_def)

text \<open>The theorem on a blocker whose rule has an entry of complexity 2; without the entry it scores 8.\<close>

theorem library_overrides_severity_witness:
  "severity blocker_sample = ''BLOCKER''
   \<and> map_option entry_complexity (single_return_library (pattern_key (rule_id blocker_sample))) = Some (Some 2)
   \<and> \<not> sensitive_path (file_path blocker_sample)
   \<and> category blocker_sample = ''maintainability''
   \<and> calculate_complexity single_return_library blocker_sample = 2
   \<and> calculate_complexity default_patterns blocker_sample = 8"
proof -
  have sev: "severity blocker_sample = ''BLOCKER''"
    by (simp add: blocker_sample_def sample_issue_def)
  have cat: "category blocker_sample = ''maintainability''"
    by (simp add: blocker_sample_def sample_issue_def)
  have path: "\<not> sensitive_path (file_path blocker_sample)"
    by (simp add: blocker_sample_def sample_issue_def date_path_plain)
  have rid: "rule_id blocker_sample = ''S3516''"
    by (simp add: blocker_sample_def sample_issue_def)
  have entry: "single_return_library (pattern_key (rule_id blocker_sample)) = Some single_return_entry"
    by (simp add: rid key_S3516_bare single_return_library_def)
  have two: "calculate_complexity single_return_library blocker_sample = 2"
    using library_overrides_severity [where P = single_return_library and i = blocker_sample
        and c = 2, OF entry] path cat
    by (simp add: single_return_entry_def path_adjustment_def category_adjustment_def)
  have lib: "map_option entry_complexity (single_return_library (pattern_key (rule_id blocker_sample))) = Some (Some 2)"
    by (simp add: entry single_return_entry_def)
  show ?thesis using sev lib path cat two blocker_default by (intro conjI)
qed

section \<open>The ceiling of the score\<close>




lemma default_patterns_lookup:
  "default_patterns (pattern_key r) =
     (if pattern_key r = ''typescript-missing-await'' then Some async_await_entry else None)"
  using pattern_key_not_S3516 [of r] pattern_key_not_S128 [of r]
  by (simp add: default_patterns_def async_await_entry_def)

lemma default_score:
  "calculate_complexity default_patterns i =
     min ((if pattern_key (rule_id i) = ''typescript-missing-await'' then 3
           else severity_base (severity i))
          + path_adjustment i + category_adjustment i) 10"
  by (simp add: calculate_complexity_eq default_patterns_lookup async_await_entry_def dict_get_def)







section \<open>The default library and the pattern key\<close>

lemma key_await: "pattern_key ''typescript-missing-await'' = ''typescript-missing-await''"
  by (simp add: pattern_key_def replace_def lower_def char_table_defs)

text \<open>
  Claim C10 as stated fails: a SonarQube record whose rule is the string
  \<open>typescript-missing-await\<close> gives an issue whose pattern key is the third key of the
  default library, so the override is taken and a BLOCKER scores 3 where the base and the
  adjustments give 8.
\<close>

theorem sonar_issue_takes_override:
  "ingest_sonarqube sample_digest (Loaded (StandardFormat (Some [await_record])))
     = Inr [standard_issue sample_digest await_record]
   \<and> source (standard_issue sample_digest await_record) = ''sonarqube''
   \<and> severity (standard_issue sample_digest await_record) = ''BLOCKER''
   \<and> default_patterns (pattern_key (rule_id (standard_issue sample_digest await_record)))
        = Some async_await_entry
   \<and> calculate_complexity default_patterns (standard_issue sample_digest await_record) = 3
   \<and> min (severity_base (severity (standard_issue sample_digest await_record))
           + path_adjustment (standard_issue sample_digest await_record)
           + category_adjustment (standard_issue sample_digest await_record)) 10 = 8"
proof -
  have rid: "rule_id (standard_issue sample_digest await_record) = ''typescript-missing-await''"
    by (simp add: standard_issue_def await_record_def sonar_record_def dict_get_def Let_def)
  have sev: "severity (standard_issue sample_digest await_record) = ''BLOCKER''"
    by (simp add: standard_issue_def await_record_def sonar_record_def dict_get_def Let_def
        upper_def char_table_defs)
  have path: "file_path (standard_issue sample_digest await_record) = ''src/utils/date.ts''"
    by (simp add: standard_issue_def await_record_def sonar_record_def dict_get_def Let_def)
  have cat: "category (standard_issue sample_digest await_record) = ''general''"
    by (simp add: standard_issue_def await_record_def sonar_record_def dict_get_def Let_def
        categorize_sonar_rule_def)
  have adj: "path_adjustment (standard_issue sample_digest await_record) = 0"
      "category_adjustment (standard_issue sample_digest await_record) = 0"
    by (simp_all add: path_adjustment_def category_adjustment_def path cat date_path_plain)
  have lib: "default_patterns (pattern_key (rule_id (standard_issue sample_digest await_record)))
        = Some async_await_entry"
    using default_patterns_lookup [of "''typescript-missing-await''"]
    by (simp add: rid key_await)
  have score: "calculate_complexity default_patterns (standard_issue sample_digest await_record) = 3"
    by (simp add: default_score rid key_await adj)
  have base: "min (severity_base (severity (standard_issue sample_digest await_record))
           + path_adjustment (standard_issue sample_digest await_record)
           + category_adjustment (standard_issue sample_digest await_record)) 10 = 8"
    by (simp add: sev adj severity_base_def)
  have ing: "ingest_sonarqube sample_digest (Loaded (StandardFormat (Some [await_record])))
     = Inr [standard_issue sample_digest await_record]"
    by (simp add: ingest_sonarqube_def dict_get_def)
  have src: "source (standard_issue sample_digest await_record) = ''sonarqube''"
    by (simp add: standard_issue_def Let_def)
  show ?thesis using ing src sev lib score base by (intro conjI)
qed

text \<open>
  Claim C10, amended. The pattern key of a rule identifier (lower-cased, with \<open>ts\<close>
  replaced by \<open>typescript-\<close>) holds no upper-case letter, so it is never
  \<open>sonar-S3516\<close> or \<open>sonar-S128\<close>: these two entries of the default library override no
  score. Under the default library every issue whose pattern key is not
  \<open>typescript-missing-await\<close> finds no entry and scores the severity base plus the path
  and category adjustments, with the ceiling of 10; an issue whose pattern key is
  \<open>typescript-missing-await\<close> scores 3 plus the adjustments, whatever its source.
\<close>

theorem sonar_keys_never_match:
  "pattern_key r \<noteq> ''sonar-S3516''
   \<and> pattern_key r \<noteq> ''sonar-S128''
   \<and> (\<forall>c \<in> set upper_letters. c \<notin> set (pattern_key r))
   \<and> (pattern_key (rule_id i) \<noteq> ''typescript-missing-await'' \<longrightarrow>
         default_patterns (pattern_key (rule_id i)) = None
       \<and> calculate_complexity default_patterns i =
           min (severity_base (severity i) + path_adjustment i + category_adjustment i) 10)
   \<and> (pattern_key (rule_id i) = ''typescript-missing-await'' \<longrightarrow>
         calculate_complexity default_patterns i =
           min (3 + path_adjustment i + category_adjustment i) 10)"
  using pattern_key_not_S3516 [of r] pattern_key_not_S128 [of r] pattern_key_no_upper [of _ r]
  by (simp add: default_score default_patterns_lookup)

text \<open>The theorem on the rule \<open>S3516\<close>, which the first entry was written for.\<close>

theorem sonar_keys_never_match_witness:
  "CHR ''S'' \<in> set upper_letters
   \<and> CHR ''S'' \<notin> set (pattern_key ''S3516'')
   \<and> pattern_key ''S3516'' \<noteq> ''sonar-S3516''
   \<and> pattern_key ''S128'' \<noteq> ''sonar-S128''
   \<and> pattern_key (rule_id blocker_sample) \<noteq> ''typescript-missing-await''
   \<and> default_patterns (pattern_key (rule_id blocker_sample)) = None
   \<and> calculate_complexity default_patterns blocker_sample =
        min (severity_base (severity blocker_sample) + path_adjustment blocker_sample
             + category_adjustment blocker_sample) 10"
proof -
  have S: "CHR ''S'' \<in> set upper_letters" by (simp add: upper_letters_def)
  have key: "pattern_key (rule_id blocker_sample) \<noteq> ''typescript-missing-await''"
    by (simp add: blocker_sample_def sample_issue_def key_S3516_bare)
  note t1 = sonar_keys_never_match [of "''S3516''" blocker_sample]
  note t2 = sonar_keys_never_match [of "''S128''" blocker_sample]
  have noS: "CHR ''S'' \<notin> set (pattern_key ''S3516'')"
    using t1 [THEN conjunct2, THEN conjunct2, THEN conjunct1] S by blast
  note rest = t1 [THEN conjunct2, THEN conjunct2, THEN conjunct2, THEN conjunct1, THEN mp, OF key]
  show ?thesis
    using S noS t1 [THEN conjunct1] t2 [THEN conjunct2, THEN conjunct1] key
      rest [THEN conjunct1] rest [THEN conjunct2]
    by (intro conjI)
qed

section \<open>Scenario C: a compiler line\<close>

lemmas string_eval_defs =
  split_def strip_def is_space_def py_int_def is_digit_def digit_val_def decimal_digits_def
  str_int_def str_nat.simps digit_char_def

lemma typescript_line_scenario_c:
  "typescript_line md5 scenario_c_line = Inr (Some (scenario_c_issue md5))"
  by (simp add: typescript_line_def scenario_c_line_def scenario_c_issue_def string_eval_defs
      map_ts_severity_def categorize_ts_error_def Let_def)

lemma ingest_scenario_c:
  "ingest_typescript md5 (Lines [scenario_c_line]) = Inr [scenario_c_issue md5]"
  by (simp add: ingest_typescript_def typescript_line_scenario_c)

lemma key_TS2307: "pattern_key ''TS2307'' = ''typescript-2307''"
  by (simp add: pattern_key_def replace_def lower_def char_table_defs)

lemma foo_path_plain: "\<not> sensitive_path ''foo.ts''"
  by (simp add: sensitive_path_def sensitive_paths_def lower_def char_table_defs)

lemma scenario_c_score: "calculate_complexity default_patterns (scenario_c_issue md5) = 2"
  by (simp add: default_score scenario_c_issue_def key_TS2307 severity_base_def
      path_adjustment_def category_adjustment_def foo_path_plain)

lemma scenario_c_pattern: "get_pattern_name (scenario_c_issue md5) = ''pattern-import-fixes''"
  by (simp add: get_pattern_name_def scenario_c_issue_def rule_patterns_def)

text \<open>
  Claim C4 as stated fails. The line of scenario C gives one issue, of category imports, but
  its severity is not MAJOR, its score is not 4, and the job it is routed to is neither
  DEEP nor estimated at 12 minutes.
\<close>

theorem scenario_c_is_not_deep:
  "ingest_typescript sample_digest (Lines [scenario_c_line]) = Inr [scenario_c_issue sample_digest]
   \<and> severity (scenario_c_issue sample_digest) \<noteq> ''MAJOR''
   \<and> category (scenario_c_issue sample_digest) = ''imports''
   \<and> calculate_complexity default_patterns (scenario_c_issue sample_digest) \<noteq> 4
   \<and> job_type (route_issue quiet_environment default_patterns (scenario_c_issue sample_digest)) \<noteq> ''DEEP''
   \<and> estimated_minutes (route_issue quiet_environment default_patterns (scenario_c_issue sample_digest)) \<noteq> 12"
proof -
  have sev: "severity (scenario_c_issue sample_digest) \<noteq> ''MAJOR''"
    by (simp add: scenario_c_issue_def)
  have cat: "category (scenario_c_issue sample_digest) = ''imports''"
    by (simp add: scenario_c_issue_def)
  have sc: "calculate_complexity default_patterns (scenario_c_issue sample_digest) \<noteq> 4"
    by (simp add: scenario_c_score)
  have job: "job_type (route_issue quiet_environment default_patterns (scenario_c_issue sample_digest)) \<noteq> ''DEEP''"
    using quiet_unresolved by (simp add: route_issue_def Let_def scenario_c_score)
  have mins: "estimated_minutes (route_issue quiet_environment default_patterns (scenario_c_issue sample_digest)) \<noteq> 12"
    using quiet_unresolved by (simp add: route_issue_def Let_def scenario_c_score)
  show ?thesis using ingest_scenario_c sev cat sc job mins by (intro conjI)
qed

text \<open>
  Claim C4, amended. \<open>map_ts_severity\<close> gives CRITICAL to the syntax codes, MAJOR to the
  type-error codes and MINOR to every other code; 2307 is an import-error code for
  \<open>categorize_ts_error\<close> only. So the line of scenario C gives one issue with severity
  MINOR and category imports, whose score under the default library is 2, and which, when
  it is not already resolved, is routed to a SPEED job with verification BASIC, 5
  estimated minutes and the pattern \<open>pattern-import-fixes\<close>.
\<close>

theorem scenario_c_routes_to_speed:
  "ingest_typescript md5 (Lines [scenario_c_line]) = Inr [scenario_c_issue md5]
   \<and> severity (scenario_c_issue md5) = ''MINOR''
   \<and> map_ts_severity ''2307'' = ''MINOR''
   \<and> category (scenario_c_issue md5) = ''imports''
   \<and> rule_id (scenario_c_issue md5) = ''TS2307''
   \<and> file_path (scenario_c_issue md5) = ''foo.ts''
   \<and> line (scenario_c_issue md5) = 12
   \<and> calculate_complexity default_patterns (scenario_c_issue md5) = 2
   \<and> (\<not> check_already_resolved env (scenario_c_issue md5) \<longrightarrow>
        job_type (route_issue env default_patterns (scenario_c_issue md5)) = ''SPEED''
      \<and> verification_level (route_issue env default_patterns (scenario_c_issue md5)) = ''BASIC''
      \<and> estimated_minutes (route_issue env default_patterns (scenario_c_issue md5)) = 5
      \<and> pattern (route_issue env default_patterns (scenario_c_issue md5)) = Some ''pattern-import-fixes'')"
proof (intro conjI impI)
  show "ingest_typescript md5 (Lines [scenario_c_line]) = Inr [scenario_c_issue md5]"
    by (rule ingest_scenario_c)
  show "calculate_complexity default_patterns (scenario_c_issue md5) = 2"
    by (rule scenario_c_score)
  show "map_ts_severity ''2307'' = ''MINOR''" by (simp add: map_ts_severity_def)
  show "severity (scenario_c_issue md5) = ''MINOR''" by (simp add: scenario_c_issue_def)
  show "category (scenario_c_issue md5) = ''imports''" by (simp add: scenario_c_issue_def)
  show "rule_id (scenario_c_issue md5) = ''TS2307''" by (simp add: scenario_c_issue_def)
  show "file_path (scenario_c_issue md5) = ''foo.ts''" by (simp add: scenario_c_issue_def)
  show "line (scenario_c_issue md5) = 12" by (simp add: scenario_c_issue_def)
next
  assume nr: "\<not> check_already_resolved env (scenario_c_issue md5)"
  then have job: "route_issue env default_patterns (scenario_c_issue md5) =
      \<lparr>job_id = ''job-'' @ issue_id (scenario_c_issue md5), issue = scenario_c_issue md5,
       job_type = ''SPEED'', complexity_score = 2, estimated_minutes = 5,
       pattern = Some ''pattern-import-fixes'', requires_agents = [],
       verification_level = ''BASIC'',
       similar_fixes = find_similar_fixes env (scenario_c_issue md5),
       created_at = now_isoformat env\<rparr>"
    by (simp add: route_issue_def Let_def scenario_c_score scenario_c_pattern)
  show "job_type (route_issue env default_patterns (scenario_c_issue md5)) = ''SPEED''"
    by (simp add: job)
  show "verification_level (route_issue env default_patterns (scenario_c_issue md5)) = ''BASIC''"
    by (simp add: job)
  show "estimated_minutes (route_issue env default_patterns (scenario_c_issue md5)) = 5"
    by (simp add: job)
  show "pattern (route_issue env default_patterns (scenario_c_issue md5)) = Some ''pattern-import-fixes''"
    by (simp add: job)
qed

text \<open>The theorem with the stand-in digest, in the quiet environment.\<close>

theorem scenario_c_routes_to_speed_witness:
  "\<not> check_already_resolved quiet_environment (scenario_c_issue sample_digest)
   \<and> ingest_typescript sample_digest (Lines [scenario_c_line]) = Inr [scenario_c_issue sample_digest]
   \<and> issue_id (scenario_c_issue sample_digest) = ''ts-2307-00000000''
   \<and> severity (scenario_c_issue sample_digest) = ''MINOR''
   \<and> calculate_complexity default_patterns (scenario_c_issue sample_digest) = 2
   \<and> job_type (route_issue quiet_environment default_patterns (scenario_c_issue sample_digest)) = ''SPEED''
   \<and> estimated_minutes (route_issue quiet_environment default_patterns (scenario_c_issue sample_digest)) = 5
   \<and> pattern (route_issue quiet_environment default_patterns (scenario_c_issue sample_digest))
        = Some ''pattern-import-fixes''"
proof -
  note t = scenario_c_routes_to_speed [of sample_digest quiet_environment]
  note routed = t [THEN conjunct2, THEN conjunct2, THEN conjunct2, THEN conjunct2,
      THEN conjunct2, THEN conjunct2, THEN conjunct2, THEN conjunct2, THEN mp, OF quiet_unresolved]
  have ident: "issue_id (scenario_c_issue sample_digest) = ''ts-2307-00000000''"
    by (simp add: scenario_c_issue_def hash_suffix_def sample_digest_def)
  show ?thesis
    using quiet_unresolved t [THEN conjunct1] ident t [THEN conjunct2, THEN conjunct1]
      t [THEN conjunct2, THEN conjunct2, THEN conjunct2, THEN conjunct2,
         THEN conjunct2, THEN conjunct2, THEN conjunct2, THEN conjunct1]
      routed [THEN conjunct1] routed [THEN conjunct2, THEN conjunct2, THEN conjunct1]
      routed [THEN conjunct2, THEN conjunct2, THEN conjunct2]
    by (intro conjI)
qed

section \<open>Severity of a SonarQube record\<close>

lemma upper_defaults: "upper ''UNKNOWN'' = ''UNKNOWN''" "upper ''INFO'' = ''INFO''"
  by (simp_all add: upper_def char_table_defs)

lemma standard_issue_severity:
  "severity (standard_issue md5 item) =
     (case item_severity item of None \<Rightarrow> ''UNKNOWN'' | Some s \<Rightarrow> upper s)"
  by (simp add: standard_issue_def Let_def dict_get_def upper_defaults split: option.splits)

lemma parse_record_severity:
  "parse_record idx item = Some obj \<Longrightarrow>
     eo_severity obj = (case item_severity item of None \<Rightarrow> ''INFO'' | Some s \<Rightarrow> upper s)"
  by (auto simp: parse_record_def Let_def dict_get_def upper_defaults split: option.splits if_splits)

lemma parse_record_None:
  "parse_record idx item = None \<longleftrightarrow> replace (dict_get (item_component item) []) ''WedSync:'' [] = []"
  by (simp add: parse_record_def Let_def)

lemma parse_records_severity:
  "map eo_severity (parse_records idx items) =
     map (\<lambda>item. case item_severity item of None \<Rightarrow> ''INFO'' | Some s \<Rightarrow> upper s)
       (filter (\<lambda>item. replace (dict_get (item_component item) []) ''WedSync:'' [] \<noteq> []) items)"
proof (induction items arbitrary: idx)
  case Nil
  then show ?case by simp
next
  case (Cons item items)
  show ?case
  proof (cases "parse_record idx item")
    case None
    then show ?thesis using Cons.IH [of "Suc idx"] parse_record_None [of idx item] by simp
  next
    case (Some obj)
    then have "replace (dict_get (item_component item) []) ''WedSync:'' [] \<noteq> []"
      using parse_record_None [of idx item] by simp
    then show ?thesis
      using Some Cons.IH [of "Suc idx"] parse_record_severity [OF Some] by simp
  qed
qed

lemma upper_critical: "upper ''critical'' = ''CRITICAL''"
  by (simp add: upper_def char_table_defs)

text \<open>
  Claim C5 as stated fails for the issues of the orchestrator: a record of a standard
  report that has no severity gives an issue of severity UNKNOWN, not INFO.
\<close>

theorem missing_severity_is_unknown:
  "item_severity bare_record = None
   \<and> ingest_sonarqube sample_digest (Loaded (StandardFormat (Some [bare_record])))
       = Inr [standard_issue sample_digest bare_record]
   \<and> severity (standard_issue sample_digest bare_record) = ''UNKNOWN''
   \<and> severity (standard_issue sample_digest bare_record) \<noteq> ''INFO''"
proof -
  have none: "item_severity bare_record = None"
    by (simp add: bare_record_def sonar_record_def)
  have ing: "ingest_sonarqube sample_digest (Loaded (StandardFormat (Some [bare_record])))
       = Inr [standard_issue sample_digest bare_record]"
    by (simp add: ingest_sonarqube_def dict_get_def)
  have unk: "severity (standard_issue sample_digest bare_record) = ''UNKNOWN''"
    by (simp add: standard_issue_severity none)
  have ninfo: "severity (standard_issue sample_digest bare_record) \<noteq> ''INFO''"
    by (simp add: unk)
  show ?thesis using none ing unk ninfo by (intro conjI)
qed

text \<open>
  Claim C5, amended. For every record in the flat issues list of a standard report, the
  issue that \<open>ingest_sonarqube\<close> builds has the severity of the record in upper case, and
  UNKNOWN when the record has none (the scorer gives that severity the base 3). The default
  INFO belongs to the stand-alone parser: the objects \<open>parse_sonarqube_results\<close> writes,
  one per record with a file path, have the severity in upper case, and INFO when the
  record has none.
\<close>

theorem sonar_severity_upper_cased:
  "(\<exists>issues. ingest_sonarqube md5 (Loaded (StandardFormat (Some items))) = Inr issues
       \<and> map severity issues =
           map (\<lambda>item. case item_severity item of None \<Rightarrow> ''UNKNOWN'' | Some s \<Rightarrow> upper s) items)
   \<and> map eo_severity (parse_sonarqube_results items) =
       map (\<lambda>item. case item_severity item of None \<Rightarrow> ''INFO'' | Some s \<Rightarrow> upper s)
         (filter (\<lambda>item. replace (dict_get (item_component item) []) ''WedSync:'' [] \<noteq> []) items)"
proof
  have "map severity (map (standard_issue md5) items) =
      map (\<lambda>item. case item_severity item of None \<Rightarrow> ''UNKNOWN'' | Some s \<Rightarrow> upper s) items"
    by (simp add: standard_issue_severity)
  then show "\<exists>issues. ingest_sonarqube md5 (Loaded (StandardFormat (Some items))) = Inr issues
       \<and> map severity issues =
           map (\<lambda>item. case item_severity item of None \<Rightarrow> ''UNKNOWN'' | Some s \<Rightarrow> upper s) items"
    by (simp add: ingest_sonarqube_def dict_get_def)
  show "map eo_severity (parse_sonarqube_results items) =
       map (\<lambda>item. case item_severity item of None \<Rightarrow> ''INFO'' | Some s \<Rightarrow> upper s)
         (filter (\<lambda>item. replace (dict_get (item_component item) []) ''WedSync:'' [] \<noteq> []) items)"
    unfolding parse_sonarqube_results_def by (rule parse_records_severity)
qed

text \<open>The theorem on scenario A followed by a record with no severity.\<close>

theorem sonar_severity_upper_cased_witness:
  "map severity (projr (ingest_sonarqube sample_digest
       (Loaded (StandardFormat (Some [scenario_a_record, bare_record])))))
     = [''CRITICAL'', ''UNKNOWN'']
   \<and> map eo_severity (parse_sonarqube_results [scenario_a_record, bare_record])
     = [''CRITICAL'', ''INFO'']"
proof -
  have sevs: "item_severity scenario_a_record = Some ''critical''" "item_severity bare_record = None"
    by (simp_all add: scenario_a_record_def bare_record_def sonar_record_def)
  have comps: "replace (dict_get (item_component scenario_a_record) []) ''WedSync:'' [] \<noteq> []"
      "replace (dict_get (item_component bare_record) []) ''WedSync:'' [] \<noteq> []"
    by (simp_all add: scenario_a_record_def bare_record_def sonar_record_def dict_get_def replace_def)
  note t = sonar_severity_upper_cased [of sample_digest "[scenario_a_record, bare_record]"]
  obtain issues where
    ing: "ingest_sonarqube sample_digest (Loaded (StandardFormat (Some [scenario_a_record, bare_record])))
          = Inr issues"
    and sev: "map severity issues =
      map (\<lambda>item. case item_severity item of None \<Rightarrow> ''UNKNOWN'' | Some s \<Rightarrow> upper s)
        [scenario_a_record, bare_record]"
    using t [THEN conjunct1] by blast
  have a: "map severity (projr (ingest_sonarqube sample_digest
       (Loaded (StandardFormat (Some [scenario_a_record, bare_record])))))
     = [''CRITICAL'', ''UNKNOWN'']"
    by (simp add: ing sev sevs upper_critical)
  have b: "map eo_severity (parse_sonarqube_results [scenario_a_record, bare_record])
     = [''CRITICAL'', ''INFO'']"
    using t [THEN conjunct2] by (simp add: sevs comps upper_critical)
  show ?thesis using a b by (intro conjI)
qed

section \<open>Reports that cannot be loaded\<close>

text \<open>
  Claim C6. A report that is malformed JSON or cannot be decoded should give no issues
  and leave the run going. \<open>ingest_sonarqube\<close> does that: it catches both exceptions and
  returns the empty list, and the run goes on to the next report. \<open>ingest_coderabbit\<close> and
  \<open>ingest_typescript\<close> have no handler: the exception leaves the function and, since
  \<open>main\<close> catches nothing, ends the run before the remaining reports are read. The last
  two equations are a run of two reports: a malformed CodeRabbit report first loses the
  SonarQube report after it, a malformed SonarQube report first does not.
\<close>

theorem unguarded_ingestion_aborts:
  "ingest_sonarqube md5 Malformed = Inr []
   \<and> ingest_sonarqube md5 Undecodable = Inr []
   \<and> main_ingest md5 (SonarQubeReport Malformed # reports) all_issues
       = main_ingest md5 reports all_issues
   \<and> main_ingest md5 (SonarQubeReport Undecodable # reports) all_issues
       = main_ingest md5 reports all_issues
   \<and> ingest_coderabbit md5 Malformed = Inl JSONDecodeError
   \<and> ingest_coderabbit md5 Undecodable = Inl UnicodeDecodeError
   \<and> ingest_typescript md5 UndecodableText = Inl UnicodeDecodeError
   \<and> main_ingest md5 (CodeRabbitReport Malformed # reports) all_issues = Inl JSONDecodeError
   \<and> main_ingest md5 (CodeRabbitReport Undecodable # reports) all_issues = Inl UnicodeDecodeError
   \<and> main_ingest md5 (TypeScriptReport UndecodableText # reports) all_issues
       = Inl UnicodeDecodeError
   \<and> main_ingest sample_digest
         [CodeRabbitReport Malformed,
          SonarQubeReport (Loaded (StandardFormat (Some [scenario_a_record])))] []
       = Inl JSONDecodeError
   \<and> main_ingest sample_digest
         [SonarQubeReport Malformed,
          SonarQubeReport (Loaded (StandardFormat (Some [scenario_a_record])))] []
       = Inr [standard_issue sample_digest scenario_a_record]"
  by (simp add: ingest_sonarqube_def ingest_coderabbit_def ingest_typescript_def
      ingest_report_def dict_get_def)

section \<open>Determinism of scoring and ingestion\<close>

lemma standard_issue_fields:
  assumes "key_fields a = key_fields b"
  shows "issue_tuple (standard_issue md5 a) = issue_tuple (standard_issue md5 b)"
    and "issue_id (standard_issue md5 a) = issue_id (standard_issue md5 b)"
  using assms by (simp_all add: key_fields_def issue_tuple_def standard_issue_def Let_def)

lemma map_standard_issue_fields:
  assumes "map key_fields items = map key_fields items'"
  shows "map issue_tuple (map (standard_issue md5) items)
           = map issue_tuple (map (standard_issue md5) items')
       \<and> map issue_id (map (standard_issue md5) items)
           = map issue_id (map (standard_issue md5) items')"
  using assms
proof (induction items arbitrary: items')
  case Nil
  then show ?case by simp
next
  case (Cons a items)
  then obtain b rest where items': "items' = b # rest" by (cases items') auto
  with Cons.prems have k: "key_fields a = key_fields b" and r: "map key_fields items = map key_fields rest"
    by simp_all
  show ?case
    using Cons.IH [OF r] standard_issue_fields [OF k, of md5] by (simp add: items')
qed

lemma standard_issue_id:
  "issue_id (standard_issue md5 item) =
     ''sonar-'' @ fmt_str (item_rule item) @ ''-''
       @ take 8 (md5 (fmt_str (item_component item) @ fmt_int (item_line item)))"
  by (simp add: standard_issue_def Let_def hash_suffix_def)

text \<open>
  Claim C9. The score is a function of the severity, the rule identifier, the file path and
  the category of the issue and of the library: two issues that agree on these four fields
  (the same issue scored twice in particular) get the same score. Ingesting a standard
  report is a function of the component, line, rule and severity of its records: two
  reports whose records agree on these fields, in order (the same bytes ingested twice in
  particular), give issue lists with the same (file_path, line, rule_id, severity) tuples
  in the same order and the same identifiers, each identifier being built from the rule
  and the first eight characters of the digest of component and line.
\<close>

theorem scoring_and_ingestion_deterministic:
  "(severity i = severity j \<and> rule_id i = rule_id j \<and> file_path i = file_path j
      \<and> category i = category j \<longrightarrow>
        calculate_complexity P i = calculate_complexity P j)
   \<and> (map key_fields items = map key_fields items' \<longrightarrow>
        (\<exists>xs ys. ingest_sonarqube md5 (Loaded (StandardFormat (Some items))) = Inr xs
            \<and> ingest_sonarqube md5 (Loaded (StandardFormat (Some items'))) = Inr ys
            \<and> map issue_tuple xs = map issue_tuple ys
            \<and> map issue_id xs = map issue_id ys
            \<and> map issue_id xs =
                map (\<lambda>item. ''sonar-'' @ fmt_str (item_rule item) @ ''-''
                       @ take 8 (md5 (fmt_str (item_component item) @ fmt_int (item_line item))))
                  items))"
proof (intro conjI impI)
  assume "severity i = severity j \<and> rule_id i = rule_id j \<and> file_path i = file_path j
      \<and> category i = category j"
  then show "calculate_complexity P i = calculate_complexity P j"
    by (simp add: calculate_complexity_eq path_adjustment_def category_adjustment_def
        split: option.splits cong: if_cong)
next
  assume eq: "map key_fields items = map key_fields items'"
  have ids: "map issue_id (map (standard_issue md5) items) =
      map (\<lambda>item. ''sonar-'' @ fmt_str (item_rule item) @ ''-''
             @ take 8 (md5 (fmt_str (item_component item) @ fmt_int (item_line item)))) items"
    by (simp add: standard_issue_id)
  show "\<exists>xs ys. ingest_sonarqube md5 (Loaded (StandardFormat (Some items))) = Inr xs
            \<and> ingest_sonarqube md5 (Loaded (StandardFormat (Some items'))) = Inr ys
            \<and> map issue_tuple xs = map issue_tuple ys
            \<and> map issue_id xs = map issue_id ys
            \<and> map issue_id xs =
                map (\<lambda>item. ''sonar-'' @ fmt_str (item_rule item) @ ''-''
                       @ take 8 (md5 (fmt_str (item_component item) @ fmt_int (item_line item))))
                  items"
    using map_standard_issue_fields [OF eq, of md5] ids
    by (simp add: ingest_sonarqube_def dict_get_def del: map_map)
qed

text \<open>The theorem on two issues and two reports that differ in their messages only.\<close>

theorem scoring_and_ingestion_deterministic_witness:
  "message speed_sample \<noteq> message reworded_speed_sample
   \<and> calculate_complexity default_patterns speed_sample
       = calculate_complexity default_patterns reworded_speed_sample
   \<and> scenario_a_record \<noteq> reworded_record
   \<and> map issue_tuple (projr (ingest_sonarqube sample_digest
         (Loaded (StandardFormat (Some [scenario_a_record, bare_record])))))
     = map issue_tuple (projr (ingest_sonarqube sample_digest
         (Loaded (StandardFormat (Some [reworded_record, bare_record])))))
   \<and> map issue_id (projr (ingest_sonarqube sample_digest
         (Loaded (StandardFormat (Some [scenario_a_record, bare_record])))))
     = map issue_id (projr (ingest_sonarqube sample_digest
         (Loaded (StandardFormat (Some [reworded_record, bare_record])))))
   \<and> map issue_id (projr (ingest_sonarqube sample_digest
         (Loaded (StandardFormat (Some [scenario_a_record, bare_record])))))
     = [''sonar-S4502-00000000'', ''sonar-S1172-00000000'']"
proof -
  have msg: "message speed_sample \<noteq> message reworded_speed_sample"
    by (simp add: reworded_speed_sample_def speed_sample_def sample_issue_def)
  have same: "severity speed_sample = severity reworded_speed_sample
      \<and> rule_id speed_sample = rule_id reworded_speed_sample
      \<and> file_path speed_sample = file_path reworded_speed_sample
      \<and> category speed_sample = category reworded_speed_sample"
    by (simp add: reworded_speed_sample_def)
  have recs: "scenario_a_record \<noteq> reworded_record"
    by (simp add: scenario_a_record_def reworded_record_def sonar_record_def)
  have keys: "map key_fields [scenario_a_record, bare_record] = map key_fields [reworded_record, bare_record]"
    by (simp add: key_fields_def scenario_a_record_def reworded_record_def sonar_record_def)
  note t = scoring_and_ingestion_deterministic [of speed_sample reworded_speed_sample default_patterns
      "[scenario_a_record, bare_record]" "[reworded_record, bare_record]" sample_digest]
  have score: "calculate_complexity default_patterns speed_sample
       = calculate_complexity default_patterns reworded_speed_sample"
    using t [THEN conjunct1] same by blast
  obtain xs ys where
    x: "ingest_sonarqube sample_digest (Loaded (StandardFormat (Some [scenario_a_record, bare_record]))) = Inr xs"
    and y: "ingest_sonarqube sample_digest (Loaded (StandardFormat (Some [reworded_record, bare_record]))) = Inr ys"
    and tup: "map issue_tuple xs = map issue_tuple ys"
    and ids: "map issue_id xs = map issue_id ys"
    and idv: "map issue_id xs =
        map (\<lambda>item. ''sonar-'' @ fmt_str (item_rule item) @ ''-''
               @ take 8 (sample_digest (fmt_str (item_component item) @ fmt_int (item_line item))))
          [scenario_a_record, bare_record]"
    using t [THEN conjunct2, THEN mp, OF keys] by blast
  have a: "map issue_tuple (projr (ingest_sonarqube sample_digest
         (Loaded (StandardFormat (Some [scenario_a_record, bare_record])))))
     = map issue_tuple (projr (ingest_sonarqube sample_digest
         (Loaded (StandardFormat (Some [reworded_record, bare_record])))))"
    by (simp only: x y tup sum.sel)
  have b: "map issue_id (projr (ingest_sonarqube sample_digest
         (Loaded (StandardFormat (Some [scenario_a_record, bare_record])))))
     = map issue_id (projr (ingest_sonarqube sample_digest
         (Loaded (StandardFormat (Some [reworded_record, bare_record])))))"
    by (simp only: x y ids sum.sel)
  have c: "map issue_id (projr (ingest_sonarqube sample_digest
         (Loaded (StandardFormat (Some [scenario_a_record, bare_record])))))
     = [''sonar-S4502-00000000'', ''sonar-S1172-00000000'']"
    by (simp only: x sum.sel idv)
       (simp add: scenario_a_record_def bare_record_def sonar_record_def fmt_str_def sample_digest_def)
  show ?thesis using msg score recs a b c by (intro conjI)
qed

end
